theory Spec2Isabelle
  imports Main
begin

section \<open>Value types of the external SDKs\<close>

text \<open>
  \<^verbatim>\<open>swapRouter.ts\<close> compiles trade objects into router calls. The currency, amount,
  percent, route and trade classes live in the SDK packages the file imports; the model
  keeps of each exactly the members that \<^verbatim>\<open>swapRouter.ts\<close> reads.
\<close>

record Token =
  token_chainId :: nat
  token_address :: string

text \<open>A currency is the chain's native asset or a token.\<close>

datatype Currency = NativeCurrency nat | TokenCurrency Token

fun isNative :: "Currency \<Rightarrow> bool" where
  "isNative (NativeCurrency c) = True"
| "isNative (TokenCurrency t) = False"

fun isToken :: "Currency \<Rightarrow> bool" where
  "isToken (NativeCurrency c) = False"
| "isToken (TokenCurrency t) = True"

text \<open>\<^verbatim>\<open>a.equals(b)\<close>: same kind, same chain and (for tokens) same address.\<close>

definition equals :: "Currency \<Rightarrow> Currency \<Rightarrow> bool" where
  "equals a b = (a = b)"

text \<open>
  \<^verbatim>\<open>currency.wrapped\<close>: a token is its own wrapped form, the native currency of a chain
  wraps to that chain's entry of the \<^verbatim>\<open>WETH9\<close> table, which is passed as a parameter.
\<close>

fun wrapped :: "(nat \<Rightarrow> Token) \<Rightarrow> Currency \<Rightarrow> Token" where
  "wrapped weth9 (NativeCurrency c) = weth9 c"
| "wrapped weth9 (TokenCurrency t) = t"

text \<open>
  Modelled from the spec: \<^verbatim>\<open>CurrencyAmount\<close> (of \<^verbatim>\<open>@uniswap/sdk-core\<close>) is "a (currency
  identifier, integer magnitude) pair"; "arithmetic (add/subtract/compare) produces new
  instances". The magnitude is what the source reads as \<^verbatim>\<open>.quotient\<close>. A difference
  may be negative.
\<close>

record CurrencyAmount =
  currency :: Currency
  amount_quotient :: int

definition fromRawAmount :: "Currency \<Rightarrow> int \<Rightarrow> CurrencyAmount" where
  "fromRawAmount c n = \<lparr>currency = c, amount_quotient = n\<rparr>"

definition amount_add :: "CurrencyAmount \<Rightarrow> CurrencyAmount \<Rightarrow> CurrencyAmount" where
  "amount_add a b = \<lparr>currency = currency a, amount_quotient = amount_quotient a + amount_quotient b\<rparr>"

definition amount_subtract :: "CurrencyAmount \<Rightarrow> CurrencyAmount \<Rightarrow> CurrencyAmount" where
  "amount_subtract a b = \<lparr>currency = currency a, amount_quotient = amount_quotient a - amount_quotient b\<rparr>"

definition amount_greaterThan :: "CurrencyAmount \<Rightarrow> CurrencyAmount \<Rightarrow> bool" where
  "amount_greaterThan a b = (amount_quotient a > amount_quotient b)"

definition amount_wrapped :: "(nat \<Rightarrow> Token) \<Rightarrow> CurrencyAmount \<Rightarrow> CurrencyAmount" where
  "amount_wrapped weth9 a =
     \<lparr>currency = TokenCurrency (wrapped weth9 (currency a)), amount_quotient = amount_quotient a\<rparr>"

text \<open>
  Modelled from the spec: \<^verbatim>\<open>Percent\<close> is a "rational tolerance value
  (numerator/denominator of arbitrary precision)". Two such values with positive
  denominators compare by cross-multiplication.
\<close>

record Percent =
  pct_numerator :: int
  pct_denominator :: int

definition percent_greaterThan :: "Percent \<Rightarrow> Percent \<Rightarrow> bool" where
  "percent_greaterThan p q = (pct_numerator p * pct_denominator q > pct_numerator q * pct_denominator p)"

text \<open>\<^verbatim>\<open>const ZERO = JSBI.BigInt(0)\<close>\<close>

definition ZERO :: int where
  "ZERO = 0"

text \<open>\<^verbatim>\<open>const REFUND_ETH_PRICE_IMPACT_THRESHOLD = new Percent(JSBI.BigInt(50), JSBI.BigInt(100))\<close>\<close>

definition REFUND_ETH_PRICE_IMPACT_THRESHOLD :: Percent where
  "REFUND_ETH_PRICE_IMPACT_THRESHOLD = \<lparr>pct_numerator = 50, pct_denominator = 100\<rparr>"

datatype TradeType = EXACT_INPUT | EXACT_OUTPUT

text \<open>
  Modelled from the spec: the protocol tag of a route is one of \<^verbatim>\<open>V2\<close>, \<^verbatim>\<open>V3\<close>,
  \<^verbatim>\<open>MIXED\<close> (the enum \<^verbatim>\<open>Protocol\<close> of \<^verbatim>\<open>./entities/protocol\<close>). At run time the tag
  is a string, so a route can carry any other tag as well.
\<close>

definition Protocol_V2 :: string where
  "Protocol_V2 = ''V2''"

definition Protocol_V3 :: string where
  "Protocol_V3 = ''V3''"

definition Protocol_MIXED :: string where
  "Protocol_MIXED = ''MIXED''"

record Route =
  protocol :: string
  path :: "Token list"
  route_chainId :: nat

text \<open>An element of \<^verbatim>\<open>trade.swaps\<close>: \<^verbatim>\<open>{ route, inputAmount, outputAmount }\<close>.\<close>

record Swap =
  swap_route :: Route
  swap_inputAmount :: CurrencyAmount
  swap_outputAmount :: CurrencyAmount

text \<open>
  What the source reads of a single-protocol trade object. The two methods
  \<^verbatim>\<open>maximumAmountIn(slippageTolerance)\<close> and \<^verbatim>\<open>minimumAmountOut(slippageTolerance)\<close> belong
  to the SDK's trade classes; they are fields holding functions, so every theorem holds
  for whatever they compute.
\<close>

record TradeData =
  route :: Route
  tradeType :: TradeType
  inputAmount :: CurrencyAmount
  outputAmount :: CurrencyAmount
  maximumAmountIn :: "Percent \<Rightarrow> CurrencyAmount"
  minimumAmountOut :: "Percent \<Rightarrow> CurrencyAmount"
  priceImpact :: Percent

text \<open>
  The class of a trade object, as \<^verbatim>\<open>instanceof\<close> sees it. A V3 or mixed-route trade
  has a list \<^verbatim>\<open>swaps\<close> of internal segments.
\<close>

datatype SingleTrade =
    V2Trade TradeData
  | V3Trade TradeData "Swap list"
  | MixedRouteTrade TradeData "Swap list"

fun tradeData :: "SingleTrade \<Rightarrow> TradeData" where
  "tradeData (V2Trade d) = d"
| "tradeData (V3Trade d sw) = d"
| "tradeData (MixedRouteTrade d sw) = d"

text \<open>The aggregate \<^verbatim>\<open>Trade\<close> of \<^verbatim>\<open>./entities/trade\<close>.\<close>

record AggregateTrade =
  agg_swaps :: "Swap list"
  agg_tradeType :: TradeType
  agg_priceImpact :: Percent

text \<open>
  \<^verbatim>\<open>AnyTradeType\<close>: one trade object (aggregate or single-protocol) or an array of
  single-protocol trades.
\<close>

datatype TradeObject = AggregateObj AggregateTrade | SingleObj SingleTrade

datatype AnyTradeType = NonArray TradeObject | Array "SingleTrade list"

section \<open>Options, errors and calls\<close>

type_synonym Validation = string

datatype PermitOptions = PermitOptions string

record FeeOptions =
  fee_fee :: Percent
  fee_recipient :: string

record SwapOptions =
  slippageTolerance :: Percent
  recipient :: "string option"
  deadlineOrPreviousBlockhash :: "Validation option"
  inputTokenPermit :: "PermitOptions option"
  fee :: "FeeOptions option"

record SwapAndAddOptions = SwapOptions +
  outputTokenPermit :: "PermitOptions option"

text \<open>
  Every way the source can throw: the six \<^verbatim>\<open>invariant\<close> messages, the
  \<^verbatim>\<open>TypeError\<close> of reading a member of \<^verbatim>\<open>undefined\<close> (the first element of an empty
  array), and an error thrown inside an SDK function that is a parameter of the model.
\<close>

datatype Error =
    UNSUPPORTED_PROTOCOL
  | TOKEN_IN_DIFF
  | TOKEN_OUT_DIFF
  | TRADE_TYPE_DIFF
  | NON_TOKEN_PERMIT
  | NON_TOKEN_PERMIT_OUTPUT
  | TypeError
  | LibraryError string

text \<open>
  Strings built from big integers: \<^verbatim>\<open>toHex(n)\<close> and \<^verbatim>\<open>n.toString()\<close>, kept as the
  integer they print.
\<close>

datatype JsString = toHex int | toString int

text \<open>
  The recipient of a swap: the constants \<^verbatim>\<open>ADDRESS_THIS\<close> and \<^verbatim>\<open>MSG_SENDER\<close> of
  \<^verbatim>\<open>./constants\<close>, or a validated address.
\<close>

datatype Recipient = ADDRESS_THIS | MSG_SENDER | Address string

text \<open>An argument handed to \<^verbatim>\<open>encodeFunctionData\<close>.\<close>

datatype AbiArg =
    HexArg JsString
  | NumArg int
  | PathArg "string list"
  | RecipientArg Recipient
  | ValidationArg "Validation option"

datatype ApprovalTypes = NOT_REQUIRED | OtherApproval nat

datatype CondensedAddLiquidityOptions = CondensedAddLiquidityOptions string

record Pool =
  token0 :: Token
  token1 :: Token

record MintAmounts =
  mint_amount0 :: int
  mint_amount1 :: int

record Position =
  pool :: Pool
  tickLower :: int
  tickUpper :: int
  amount0 :: CurrencyAmount
  amount1 :: CurrencyAmount
  mintAmounts :: MintAmounts

text \<open>The argument object of \<^verbatim>\<open>Position.fromAmounts\<close>.\<close>

record FromAmounts =
  fa_pool :: Pool
  fa_tickLower :: int
  fa_tickUpper :: int
  fa_amount0 :: JsString
  fa_amount1 :: JsString
  useFullPrecision :: bool

text \<open>
  An encoded call is kept as the encoder that produced it and the arguments it was given:
  the ABI encoders (\<^verbatim>\<open>Interface.encodeFunctionData\<close>, \<^verbatim>\<open>SelfPermit\<close>, \<^verbatim>\<open>Payments\<close>,
  \<^verbatim>\<open>PaymentsExtended\<close>, \<^verbatim>\<open>ApproveAndCall\<close>) are outside \<^verbatim>\<open>swapRouter.ts\<close>. The first
  constructor is what \<^verbatim>\<open>Interface.encodeFunctionData\<close> returns when it returns.
\<close>

datatype Calldata =
    encodeFunctionData string "AbiArg list"
  | encodePermit Currency PermitOptions
  | encodeUnwrapWETH9 int "string option" "FeeOptions option"
  | encodeSweepToken Token int "string option" "FeeOptions option"
  | encodeRefundETH
  | encodeWrapETH int
  | encodePull Token int
  | encodeApprove Token ApprovalTypes
  | encodeAddLiquidity Position FromAmounts CondensedAddLiquidityOptions Percent

text \<open>
  The SDK functions the source calls and whose result decides how it goes on:
  \<^verbatim>\<open>validateAndParseAddress\<close> (which throws on a malformed address), the table
  \<^verbatim>\<open>WETH9\<close>, the constructor \<^verbatim>\<open>new V2Trade(route, amount, tradeType)\<close> (which can
  throw as well), and the check of a function name and its arguments against the ABI of
  \<^verbatim>\<open>./router.json\<close>: \<^verbatim>\<open>Interface.encodeFunctionData\<close> throws when the ABI has no
  such function or the arguments do not fit its parameters, and \<open>abiError\<close> is then the
  error.
\<close>

record Env =
  validateAndParseAddress :: "string \<Rightarrow> Error + string"
  WETH9 :: "nat \<Rightarrow> Token"
  V2Trade_new :: "Route \<Rightarrow> CurrencyAmount \<Rightarrow> TradeType \<Rightarrow> Error + TradeData"
  abiError :: "string \<Rightarrow> AbiArg list \<Rightarrow> Error option"

text \<open>\<^verbatim>\<open>SwapRouter.INTERFACE.encodeFunctionData(name, args)\<close>\<close>

definition INTERFACE_encodeFunctionData :: "Env \<Rightarrow> string \<Rightarrow> AbiArg list \<Rightarrow> Error + Calldata" where
  "INTERFACE_encodeFunctionData env name args =
     (case abiError env name args of
        Some e \<Rightarrow> Inl e
      | None \<Rightarrow> Inr (encodeFunctionData name args))"

section \<open>encodeV2Swap\<close>

text \<open>
  Lines 96-132. The recipient is computed before the branch on the trade type, so a
  malformed explicit recipient fails whichever variant would have been chosen. The
  \<^verbatim>\<open>console.log\<close> of line 114 writes to the console and changes no result; it is left
  out. Whatever list of arguments a branch builds is handed to the encoder as it is, and
  the encoder's error is the result when it throws.
\<close>

definition swapRecipient :: "Env \<Rightarrow> 'a SwapOptions_scheme \<Rightarrow> bool \<Rightarrow> Error + Recipient" where
  "swapRecipient env options routerMustCustody =
     (if routerMustCustody then Inr ADDRESS_THIS
      else case recipient options of
             None \<Rightarrow> Inr MSG_SENDER
           | Some r \<Rightarrow> (case validateAndParseAddress env r of
                         Inl e \<Rightarrow> Inl e
                       | Inr a \<Rightarrow> Inr (Address a)))"

definition encodeV2Swap ::
  "Env \<Rightarrow> TradeData \<Rightarrow> 'a SwapOptions_scheme \<Rightarrow> bool \<Rightarrow> bool \<Rightarrow> Error + Calldata" where
  "encodeV2Swap env trade options routerMustCustody performAggregatedSlippageCheck =
     (let amountIn = toHex (amount_quotient (maximumAmountIn trade (slippageTolerance options)));
          amountOut = toHex (amount_quotient (minimumAmountOut trade (slippageTolerance options)));
          path = map token_address (path (route trade))
      in case swapRecipient env options routerMustCustody of
           Inl e \<Rightarrow> Inl e
         | Inr rcp \<Rightarrow>
             (if tradeType trade = EXACT_INPUT then
                    (let exactInputParams =
                           [HexArg amountIn,
                            if performAggregatedSlippageCheck then NumArg 0 else HexArg amountOut,
                            PathArg path, RecipientArg rcp,
                            ValidationArg (deadlineOrPreviousBlockhash options)]
                     in if isNative (currency (inputAmount trade)) then
                          INTERFACE_encodeFunctionData env ''swapExactETHForTokens''
                            [if performAggregatedSlippageCheck then NumArg 0 else HexArg amountOut,
                             PathArg path, RecipientArg rcp,
                             ValidationArg (deadlineOrPreviousBlockhash options)]
                        else if isNative (currency (outputAmount trade)) then
                          INTERFACE_encodeFunctionData env ''swapExactTokensForETH'' exactInputParams
                        else
                          INTERFACE_encodeFunctionData env ''swapExactTokensForTokens'' exactInputParams)
                  else
                    (let exactOutputParams =
                           [HexArg amountOut, HexArg amountIn, PathArg path, RecipientArg rcp,
                            ValidationArg (deadlineOrPreviousBlockhash options)]
                     in if isNative (currency (inputAmount trade)) then
                          INTERFACE_encodeFunctionData env ''swapETHForExactTokens'' exactOutputParams
                        else if isNative (currency (outputAmount trade)) then
                          INTERFACE_encodeFunctionData env ''swapTokensForExactETH'' exactOutputParams
                        else
                          INTERFACE_encodeFunctionData env ''swapTokensForExactTokens'' exactOutputParams)))"

section \<open>encodeSwaps\<close>

subsection \<open>Normalisation of the input (lines 151-183)\<close>

definition supportedProtocol :: "Swap \<Rightarrow> bool" where
  "supportedProtocol swap =
     (protocol (swap_route swap) = Protocol_V3 \<or>
      protocol (swap_route swap) = Protocol_V2 \<or>
      protocol (swap_route swap) = Protocol_MIXED)"

text \<open>
  The loop of lines 169-177: every swap of the aggregate, whatever its protocol tag,
  becomes a \<^verbatim>\<open>new V2Trade\<close> pushed on \<^verbatim>\<open>individualTrades\<close>.
\<close>

fun unbundleSwaps ::
  "Env \<Rightarrow> TradeType \<Rightarrow> Swap list \<Rightarrow> SingleTrade list \<Rightarrow> Error + SingleTrade list" where
  "unbundleSwaps env tt [] individualTrades = Inr individualTrades"
| "unbundleSwaps env tt (swap # rest) individualTrades =
     (case V2Trade_new env (swap_route swap)
             (if tt = EXACT_INPUT then swap_inputAmount swap else swap_outputAmount swap) tt of
        Inl e \<Rightarrow> Inl e
      | Inr d \<Rightarrow> unbundleSwaps env tt rest (individualTrades @ [V2Trade d]))"

definition normalizeTrades :: "Env \<Rightarrow> AnyTradeType \<Rightarrow> Error + SingleTrade list" where
  "normalizeTrades env trades =
     (case trades of
        NonArray (AggregateObj t) \<Rightarrow>
          if list_all supportedProtocol (agg_swaps t)
          then unbundleSwaps env (agg_tradeType t) (agg_swaps t) []
          else Inl UNSUPPORTED_PROTOCOL
      | NonArray (SingleObj t) \<Rightarrow> Inr [t]
      | Array ts \<Rightarrow> Inr ts)"

text \<open>
  What one turn of that loop pushes, or the constructor's error: the
  \<^verbatim>\<open>new V2Trade(...)\<close> of lines 171-175.
\<close>

definition unbundledLeg :: "Env \<Rightarrow> TradeType \<Rightarrow> Swap \<Rightarrow> Error + SingleTrade" where
  "unbundledLeg env tt swap =
     map_sum id V2Trade
       (V2Trade_new env (swap_route swap)
          (if tt = EXACT_INPUT then swap_inputAmount swap else swap_outputAmount swap) tt)"

text \<open>The first error of a list of results, or all the values.\<close>

fun collect :: "(Error + 'a) list \<Rightarrow> Error + 'a list" where
  "collect [] = Inr []"
| "collect (Inl e # rs) = Inl e"
| "collect (Inr x # rs) = (case collect rs of Inl e \<Rightarrow> Inl e | Inr xs \<Rightarrow> Inr (x # xs))"

subsection \<open>The body of encodeSwaps (lines 185-264)\<close>

text \<open>The \<^verbatim>\<open>reduce\<close> of lines 185-189.\<close>

definition numberOfTrades :: "SingleTrade list \<Rightarrow> nat" where
  "numberOfTrades trades =
     fold (\<lambda>trade n. n + (case trade of
                            V2Trade d \<Rightarrow> 1
                          | V3Trade d sw \<Rightarrow> length sw
                          | MixedRouteTrade d sw \<Rightarrow> length sw))
          trades 0"

text \<open>
  The loop of lines 230-234: a call is pushed for a trade that is an instance of
  \<^verbatim>\<open>V2Trade\<close>, and nothing for any other trade.
\<close>

fun encodeTrades ::
  "Env \<Rightarrow> 'a SwapOptions_scheme \<Rightarrow> bool \<Rightarrow> bool \<Rightarrow> SingleTrade list \<Rightarrow> Calldata list
     \<Rightarrow> Error + Calldata list" where
  "encodeTrades env options custody agg [] calldatas = Inr calldatas"
| "encodeTrades env options custody agg (V2Trade d # trades) calldatas =
     (case encodeV2Swap env d options custody agg of
        Inl e \<Rightarrow> Inl e
      | Inr c \<Rightarrow> encodeTrades env options custody agg trades (calldatas @ [c]))"
| "encodeTrades env options custody agg (V3Trade d sw # trades) calldatas =
     encodeTrades env options custody agg trades calldatas"
| "encodeTrades env options custody agg (MixedRouteTrade d sw # trades) calldatas =
     encodeTrades env options custody agg trades calldatas"

text \<open>Lines 224-228: the permit of the input token goes first.\<close>

definition encodeInputPermit ::
  "TradeData \<Rightarrow> 'a SwapOptions_scheme \<Rightarrow> Error + Calldata list" where
  "encodeInputPermit sample options =
     (case inputTokenPermit options of
        None \<Rightarrow> Inr []
      | Some permit \<Rightarrow>
          if isToken (currency (inputAmount sample))
          then Inr [encodePermit (currency (inputAmount sample)) permit]
          else Inl NON_TOKEN_PERMIT)"

record EncodeSwapsResult =
  calldatas :: "Calldata list"
  sampleTrade :: SingleTrade
  routerMustCustody :: bool
  inputIsNative :: bool
  outputIsNative :: bool
  totalAmountIn :: CurrencyAmount
  res_minimumAmountOut :: CurrencyAmount
  quoteAmountOut :: CurrencyAmount

text \<open>
  \<^verbatim>\<open>isSwapAndAdd\<close> is \<^verbatim>\<open>true\<close> or left out; \<^verbatim>\<open>!!isSwapAndAdd\<close> of the omitted
  argument is \<^verbatim>\<open>false\<close>. An empty array passes the three \<^verbatim>\<open>every\<close> checks (its
  \<^verbatim>\<open>sampleTrade\<close> is \<^verbatim>\<open>undefined\<close>, and the callbacks never run) and throws a
  \<^verbatim>\<open>TypeError\<close> at line 209.
\<close>

definition encodeSwaps ::
  "Env \<Rightarrow> AnyTradeType \<Rightarrow> 'a SwapOptions_scheme \<Rightarrow> bool \<Rightarrow> Error + EncodeSwapsResult" where
  "encodeSwaps env trades0 options isSwapAndAdd =
     (case normalizeTrades env trades0 of
        Inl e \<Rightarrow> Inl e
      | Inr trades \<Rightarrow>
          (let n = numberOfTrades trades in
           case trades of
             [] \<Rightarrow> Inl TypeError
           | sampleTrade' # others \<Rightarrow>
               (let sample = tradeData sampleTrade' in
                if \<not> list_all (\<lambda>trade. equals (currency (inputAmount (tradeData trade)))
                                             (currency (inputAmount sample))) trades
                then Inl TOKEN_IN_DIFF
                else if \<not> list_all (\<lambda>trade. equals (currency (outputAmount (tradeData trade)))
                                                  (currency (outputAmount sample))) trades
                then Inl TOKEN_OUT_DIFF
                else if \<not> list_all (\<lambda>trade. tradeType (tradeData trade) = tradeType sample) trades
                then Inl TRADE_TYPE_DIFF
                else
                  (let inputIsNative' = isNative (currency (inputAmount sample));
                       outputIsNative' = isNative (currency (outputAmount sample));
                       performAggregatedSlippageCheck = (tradeType sample = EXACT_INPUT \<and> n > 2);
                       routerMustCustody' =
                         (outputIsNative' \<or> fee options \<noteq> None \<or> isSwapAndAdd \<or>
                          performAggregatedSlippageCheck)
                   in case encodeInputPermit sample options of
                        Inl e \<Rightarrow> Inl e
                      | Inr calldatas0 \<Rightarrow>
                          (case encodeTrades env options routerMustCustody'
                                  performAggregatedSlippageCheck trades calldatas0 of
                             Inl e \<Rightarrow> Inl e
                           | Inr calldatas' \<Rightarrow>
                               (let ZERO_IN = fromRawAmount (currency (inputAmount sample)) 0;
                                    ZERO_OUT = fromRawAmount (currency (outputAmount sample)) 0
                                in Inr \<lparr>calldatas = calldatas',
                                        sampleTrade = sampleTrade',
                                        routerMustCustody = routerMustCustody',
                                        inputIsNative = inputIsNative',
                                        outputIsNative = outputIsNative',
                                        totalAmountIn =
                                          fold (\<lambda>trade sum. amount_add sum
                                                  (maximumAmountIn (tradeData trade) (slippageTolerance options)))
                                               trades ZERO_IN,
                                        res_minimumAmountOut =
                                          fold (\<lambda>trade sum. amount_add sum
                                                  (minimumAmountOut (tradeData trade) (slippageTolerance options)))
                                               trades ZERO_OUT,
                                        quoteAmountOut =
                                          fold (\<lambda>trade sum. amount_add sum (outputAmount (tradeData trade)))
                                               trades ZERO_OUT\<rparr>))))))"

section \<open>swapCallParameters\<close>

text \<open>Lines 421-440. \<^verbatim>\<open>trades\<close> is the argument as the caller passed it.\<close>

fun instanceofV2Trade :: "TradeObject \<Rightarrow> bool" where
  "instanceofV2Trade (SingleObj (V2Trade d)) = True"
| "instanceofV2Trade (SingleObj (V3Trade d sw)) = False"
| "instanceofV2Trade (SingleObj (MixedRouteTrade d sw)) = False"
| "instanceofV2Trade (AggregateObj t) = False"

fun priceImpactOf :: "TradeObject \<Rightarrow> Percent" where
  "priceImpactOf (SingleObj t) = priceImpact (tradeData t)"
| "priceImpactOf (AggregateObj t) = agg_priceImpact t"

definition v3TradeWithHighPriceImpact :: "TradeObject \<Rightarrow> bool" where
  "v3TradeWithHighPriceImpact trade =
     (\<not> instanceofV2Trade trade \<and>
      percent_greaterThan (priceImpactOf trade) REFUND_ETH_PRICE_IMPACT_THRESHOLD)"

definition riskOfPartialFill :: "AnyTradeType \<Rightarrow> bool" where
  "riskOfPartialFill trades =
     (case trades of
        Array ts \<Rightarrow> list_ex (\<lambda>trade. v3TradeWithHighPriceImpact (SingleObj trade)) ts
      | NonArray t \<Rightarrow> v3TradeWithHighPriceImpact t)"

record MethodParameters =
  mp_calldata :: "Calldata option"
  mp_value :: JsString

text \<open>\<^verbatim>\<open>calldatas[0]\<close>: the first entry, \<^verbatim>\<open>undefined\<close> (here \<open>None\<close>) for an empty array.\<close>

fun firstEntry :: "Calldata list \<Rightarrow> Calldata option" where
  "firstEntry [] = None"
| "firstEntry (c # cs) = Some c"

text \<open>Lines 294-308: the unwrap or sweep call pushed when the router holds the output.\<close>

definition unwrapOrSweep ::
  "Env \<Rightarrow> 'a SwapOptions_scheme \<Rightarrow> EncodeSwapsResult \<Rightarrow> Calldata list" where
  "unwrapOrSweep env options r =
     (if routerMustCustody r then
        (if outputIsNative r then
           [encodeUnwrapWETH9 (amount_quotient (res_minimumAmountOut r)) (recipient options) (fee options)]
         else
           [encodeSweepToken (wrapped (WETH9 env) (currency (outputAmount (tradeData (sampleTrade r)))))
              (amount_quotient (res_minimumAmountOut r)) (recipient options) (fee options)])
      else [])"

text \<open>Lines 310-314: the refund call.\<close>

definition refundETH :: "AnyTradeType \<Rightarrow> EncodeSwapsResult \<Rightarrow> Calldata list" where
  "refundETH trades r =
     (if inputIsNative r \<and>
         (tradeType (tradeData (sampleTrade r)) = EXACT_OUTPUT \<or> riskOfPartialFill trades)
      then [encodeRefundETH] else [])"

text \<open>The array \<^verbatim>\<open>calldatas\<close> as it stands at line 316, after every push.\<close>

definition swapCalldatas ::
  "Env \<Rightarrow> AnyTradeType \<Rightarrow> 'a SwapOptions_scheme \<Rightarrow> Error + Calldata list" where
  "swapCalldatas env trades options =
     (case encodeSwaps env trades options False of
        Inl e \<Rightarrow> Inl e
      | Inr r \<Rightarrow> Inr (calldatas r @ unwrapOrSweep env options r @ refundETH trades r))"

definition swapCallParameters ::
  "Env \<Rightarrow> AnyTradeType \<Rightarrow> 'a SwapOptions_scheme \<Rightarrow> Error + MethodParameters" where
  "swapCallParameters env trades options =
     (case encodeSwaps env trades options False of
        Inl e \<Rightarrow> Inl e
      | Inr r \<Rightarrow>
          Inr \<lparr>mp_calldata = firstEntry (calldatas r @ unwrapOrSweep env options r @ refundETH trades r),
               mp_value = toHex (if inputIsNative r then amount_quotient (totalAmountIn r) else ZERO)\<rparr>)"

section \<open>swapAndAddCallParameters\<close>

text \<open>Lines 442-457.\<close>

definition getPositionAmounts :: "Position \<Rightarrow> bool \<Rightarrow> CurrencyAmount \<times> CurrencyAmount" where
  "getPositionAmounts position zeroForOne =
     (let currencyAmount0 = fromRawAmount (TokenCurrency (token0 (pool position)))
                              (mint_amount0 (mintAmounts position));
          currencyAmount1 = fromRawAmount (TokenCurrency (token1 (pool position)))
                              (mint_amount1 (mintAmounts position))
      in if zeroForOne then (currencyAmount0, currencyAmount1)
         else (currencyAmount1, currencyAmount0))"

text \<open>Lines 346-350: the permit of the output token.\<close>

definition encodeOutputPermit ::
  "EncodeSwapsResult \<Rightarrow> 'a SwapAndAddOptions_scheme \<Rightarrow> Error + Calldata list" where
  "encodeOutputPermit r options =
     (case outputTokenPermit options of
        None \<Rightarrow> Inr []
      | Some permit \<Rightarrow>
          if isToken (currency (quoteAmountOut r))
          then Inr [encodePermit (currency (quoteAmountOut r)) permit]
          else Inl NON_TOKEN_PERMIT_OUTPUT)"

text \<open>
  Lines 352-358, the constants of the deposit half. A pool's tokens are tokens, so
  \<^verbatim>\<open>token0.wrapped\<close> is \<^verbatim>\<open>token0\<close>.
\<close>

definition zeroForOne :: "Env \<Rightarrow> Position \<Rightarrow> EncodeSwapsResult \<Rightarrow> bool" where
  "zeroForOne env position r =
     (token_address (token0 (pool position)) =
      token_address (wrapped (WETH9 env) (currency (totalAmountIn r))))"

definition positionAmountIn :: "Env \<Rightarrow> Position \<Rightarrow> EncodeSwapsResult \<Rightarrow> CurrencyAmount" where
  "positionAmountIn env position r = fst (getPositionAmounts position (zeroForOne env position r))"

definition positionAmountOut :: "Env \<Rightarrow> Position \<Rightarrow> EncodeSwapsResult \<Rightarrow> CurrencyAmount" where
  "positionAmountOut env position r = snd (getPositionAmounts position (zeroForOne env position r))"

definition tokenIn :: "Env \<Rightarrow> Position \<Rightarrow> EncodeSwapsResult \<Rightarrow> Token" where
  "tokenIn env position r =
     (if inputIsNative r then WETH9 env (route_chainId (route (tradeData (sampleTrade r))))
      else wrapped (WETH9 env) (currency (positionAmountIn env position r)))"

definition tokenOut :: "Env \<Rightarrow> Position \<Rightarrow> EncodeSwapsResult \<Rightarrow> Token" where
  "tokenOut env position r =
     (if outputIsNative r then WETH9 env (route_chainId (route (tradeData (sampleTrade r))))
      else wrapped (WETH9 env) (currency (positionAmountOut env position r)))"

text \<open>Line 361.\<close>

definition amountOutRemaining :: "Env \<Rightarrow> Position \<Rightarrow> EncodeSwapsResult \<Rightarrow> CurrencyAmount" where
  "amountOutRemaining env position r =
     amount_subtract (positionAmountOut env position r) (amount_wrapped (WETH9 env) (quoteAmountOut r))"

text \<open>Lines 362-368: pulling in what the swap's output leaves short.\<close>

definition pullRemainingOutput :: "Env \<Rightarrow> Position \<Rightarrow> EncodeSwapsResult \<Rightarrow> Calldata list" where
  "pullRemainingOutput env position r =
     (if amount_greaterThan (amountOutRemaining env position r)
           (fromRawAmount (currency (positionAmountOut env position r)) 0)
      then [if outputIsNative r
            then encodeWrapETH (amount_quotient (amountOutRemaining env position r))
            else encodePull (tokenOut env position r) (amount_quotient (amountOutRemaining env position r))]
      else [])"

text \<open>
  Lines 370-403: the input side, the approvals, the deposit and the two sweeps.
  \<^verbatim>\<open>Position.fromAmounts\<close> is kept as the argument object it is given.
\<close>

definition depositCalls ::
  "Env \<Rightarrow> 'a SwapAndAddOptions_scheme \<Rightarrow> Position \<Rightarrow> CondensedAddLiquidityOptions \<Rightarrow>
     ApprovalTypes \<Rightarrow> ApprovalTypes \<Rightarrow> EncodeSwapsResult \<Rightarrow> Calldata list" where
  "depositCalls env options position addLiquidityOptions tokenInApprovalType tokenOutApprovalType r =
     (let minimalPosition =
            \<lparr>fa_pool = pool position,
             fa_tickLower = tickLower position,
             fa_tickUpper = tickUpper position,
             fa_amount0 = (if zeroForOne env position r
                           then toString (amount_quotient (amount0 position))
                           else toString (amount_quotient (res_minimumAmountOut r))),
             fa_amount1 = (if zeroForOne env position r
                           then toString (amount_quotient (res_minimumAmountOut r))
                           else toString (amount_quotient (amount1 position))),
             useFullPrecision = False\<rparr>
      in [if inputIsNative r
          then encodeWrapETH (amount_quotient (positionAmountIn env position r))
          else encodePull (tokenIn env position r) (amount_quotient (positionAmountIn env position r))]
         @ (if tokenInApprovalType \<noteq> NOT_REQUIRED
            then [encodeApprove (tokenIn env position r) tokenInApprovalType] else [])
         @ (if tokenOutApprovalType \<noteq> NOT_REQUIRED
            then [encodeApprove (tokenOut env position r) tokenOutApprovalType] else [])
         @ [encodeAddLiquidity position minimalPosition addLiquidityOptions (slippageTolerance options)]
         @ [if inputIsNative r then encodeUnwrapWETH9 ZERO None None
            else encodeSweepToken (tokenIn env position r) ZERO None None]
         @ [if outputIsNative r then encodeUnwrapWETH9 ZERO None None
            else encodeSweepToken (tokenOut env position r) ZERO None None])"

text \<open>Lines 405-412.\<close>

definition swapAndAddValue :: "Env \<Rightarrow> Position \<Rightarrow> EncodeSwapsResult \<Rightarrow> int" where
  "swapAndAddValue env position r =
     (if inputIsNative r then
        amount_quotient (amount_add (amount_wrapped (WETH9 env) (totalAmountIn r))
                           (amount_wrapped (WETH9 env) (positionAmountIn env position r)))
      else if outputIsNative r then amount_quotient (amountOutRemaining env position r)
      else ZERO)"

text \<open>The array \<^verbatim>\<open>calldatas\<close> as it stands at line 414, after every push.\<close>

definition swapAndAddCalldatas ::
  "Env \<Rightarrow> AnyTradeType \<Rightarrow> 'a SwapAndAddOptions_scheme \<Rightarrow> Position \<Rightarrow> CondensedAddLiquidityOptions \<Rightarrow>
     ApprovalTypes \<Rightarrow> ApprovalTypes \<Rightarrow> Error + Calldata list" where
  "swapAndAddCalldatas env trades options position addLiquidityOptions tokenInApprovalType
       tokenOutApprovalType =
     (case encodeSwaps env trades options True of
        Inl e \<Rightarrow> Inl e
      | Inr r \<Rightarrow>
          (case encodeOutputPermit r options of
             Inl e \<Rightarrow> Inl e
           | Inr permitCalls \<Rightarrow>
               Inr (calldatas r @ permitCalls @ pullRemainingOutput env position r @
                    depositCalls env options position addLiquidityOptions tokenInApprovalType
                      tokenOutApprovalType r)))"

definition swapAndAddCallParameters ::
  "Env \<Rightarrow> AnyTradeType \<Rightarrow> 'a SwapAndAddOptions_scheme \<Rightarrow> Position \<Rightarrow> CondensedAddLiquidityOptions \<Rightarrow>
     ApprovalTypes \<Rightarrow> ApprovalTypes \<Rightarrow> Error + MethodParameters" where
  "swapAndAddCallParameters env trades options position addLiquidityOptions tokenInApprovalType
       tokenOutApprovalType =
     (case encodeSwaps env trades options True of
        Inl e \<Rightarrow> Inl e
      | Inr r \<Rightarrow>
          (case encodeOutputPermit r options of
             Inl e \<Rightarrow> Inl e
           | Inr permitCalls \<Rightarrow>
               Inr \<lparr>mp_calldata =
                      firstEntry (calldatas r @ permitCalls @ pullRemainingOutput env position r @
                                  depositCalls env options position addLiquidityOptions
                                    tokenInApprovalType tokenOutApprovalType r),
                    mp_value = toString (swapAndAddValue env position r)\<rparr>))"

section \<open>Notions of the specification\<close>

text \<open>
  The normalized legs that are instances of \<^verbatim>\<open>V2Trade\<close>, in their order. Every leg of
  an aggregate trade is one; a V3 or mixed-route trade passed directly is not.
\<close>

fun v2Legs :: "SingleTrade list \<Rightarrow> TradeData list" where
  "v2Legs [] = []"
| "v2Legs (V2Trade d # trades) = d # v2Legs trades"
| "v2Legs (V3Trade d sw # trades) = v2Legs trades"
| "v2Legs (MixedRouteTrade d sw # trades) = v2Legs trades"

text \<open>
  The spec's \<^verbatim>\<open>legCount\<close>: "for V3/mixed-protocol trades, count their internal hop
  segments; for V2 trades, count as one".
\<close>

fun legSegments :: "SingleTrade \<Rightarrow> nat" where
  "legSegments (V2Trade d) = 1"
| "legSegments (V3Trade d sw) = length sw"
| "legSegments (MixedRouteTrade d sw) = length sw"

definition legCount :: "SingleTrade list \<Rightarrow> nat" where
  "legCount trades = sum_list (map legSegments trades)"

text \<open>
  The pre-flattened leg list of an aggregate trade, in the words of the spec: "every
  internal leg becomes an independent single-protocol trade instance carrying that leg's
  route and the appropriate amount (input amount when trade type is EXACT_INPUT, output
  amount when EXACT_OUTPUT), inheriting the aggregate's trade type", and "every leg's
  route protocol tag must be one of the three supported tags; violation fails with
  UnsupportedProtocolError". The instance is a trade of the leg's own protocol: a V2
  trade for the tag \<^verbatim>\<open>V2\<close>, a V3 trade for \<^verbatim>\<open>V3\<close>, a mixed-route trade for
  \<^verbatim>\<open>MIXED\<close>, the last two with the leg as their one segment. The source builds no V3
  or mixed-route trade anywhere, so the constructor of those two classes is a parameter
  here. The list exists when every leg can be constructed.
\<close>

definition appropriateAmount :: "TradeType \<Rightarrow> Swap \<Rightarrow> CurrencyAmount" where
  "appropriateAmount tt swap =
     (case tt of EXACT_INPUT \<Rightarrow> swap_inputAmount swap | EXACT_OUTPUT \<Rightarrow> swap_outputAmount swap)"

definition legOfSwap ::
  "Env \<Rightarrow> (Route \<Rightarrow> CurrencyAmount \<Rightarrow> TradeType \<Rightarrow> Error + TradeData) \<Rightarrow> TradeType \<Rightarrow> Swap
     \<Rightarrow> Error + SingleTrade" where
  "legOfSwap env createUncheckedTrade tt swap =
     (if protocol (swap_route swap) = Protocol_V2 then
        map_sum id V2Trade (V2Trade_new env (swap_route swap) (appropriateAmount tt swap) tt)
      else if protocol (swap_route swap) = Protocol_V3 then
        map_sum id (\<lambda>d. V3Trade d [swap])
          (createUncheckedTrade (swap_route swap) (appropriateAmount tt swap) tt)
      else if protocol (swap_route swap) = Protocol_MIXED then
        map_sum id (\<lambda>d. MixedRouteTrade d [swap])
          (createUncheckedTrade (swap_route swap) (appropriateAmount tt swap) tt)
      else Inl UNSUPPORTED_PROTOCOL)"

definition preFlattenedLegs ::
  "Env \<Rightarrow> (Route \<Rightarrow> CurrencyAmount \<Rightarrow> TradeType \<Rightarrow> Error + TradeData) \<Rightarrow> AggregateTrade
     \<Rightarrow> Error + SingleTrade list" where
  "preFlattenedLegs env createUncheckedTrade t =
     collect (map (legOfSwap env createUncheckedTrade (agg_tradeType t)) (agg_swaps t))"

text \<open>A price impact above 50%, for a percentage with a positive denominator.\<close>

definition exceedsHalf :: "Percent \<Rightarrow> bool" where
  "exceedsHalf p = (2 * pct_numerator p > pct_denominator p)"

section \<open>Example inputs\<close>

definition tokA :: Token where
  "tokA = \<lparr>token_chainId = 1, token_address = ''0xA''\<rparr>"

definition tokB :: Token where
  "tokB = \<lparr>token_chainId = 1, token_address = ''0xB''\<rparr>"

definition ex_amount :: "Currency \<Rightarrow> int \<Rightarrow> CurrencyAmount" where
  "ex_amount c n = \<lparr>currency = c, amount_quotient = n\<rparr>"

text \<open>
  A stand-in for the SDK. Addresses are accepted unless empty and every chain wraps to
  one token. A trade built on a route quotes two output units per input unit between the
  ends of the route's path; the constructor of V2 trades does so on a route tagged
  \<^verbatim>\<open>V2\<close> and throws a \<^verbatim>\<open>TypeError\<close> on any other, which has no pairs for it to read.
  The ABI gives the six swap functions the parameters of a V2 router, four for the two
  that are paid in native value and five for the others, and a call with another number
  of arguments or with no deadline throws.
\<close>

definition ex_quote :: "Route \<Rightarrow> CurrencyAmount \<Rightarrow> TradeType \<Rightarrow> Error + TradeData" where
  "ex_quote rt amount tt =
     (case path rt of
        [] \<Rightarrow> Inl (LibraryError ''PATH'')
      | t # ts \<Rightarrow>
          Inr (case tt of
                 EXACT_INPUT \<Rightarrow>
                   \<lparr>route = rt, tradeType = tt, inputAmount = amount,
                    outputAmount = ex_amount (TokenCurrency (last (t # ts))) (2 * amount_quotient amount),
                    maximumAmountIn = (\<lambda>p. amount),
                    minimumAmountOut =
                      (\<lambda>p. ex_amount (TokenCurrency (last (t # ts))) (2 * amount_quotient amount - 2)),
                    priceImpact = \<lparr>pct_numerator = 1, pct_denominator = 100\<rparr>\<rparr>
               | EXACT_OUTPUT \<Rightarrow>
                   \<lparr>route = rt, tradeType = tt,
                    inputAmount = ex_amount (TokenCurrency t) (amount_quotient amount div 2),
                    outputAmount = amount,
                    maximumAmountIn =
                      (\<lambda>p. ex_amount (TokenCurrency t) (amount_quotient amount div 2 + 1)),
                    minimumAmountOut = (\<lambda>p. amount),
                    priceImpact = \<lparr>pct_numerator = 1, pct_denominator = 100\<rparr>\<rparr>))"

definition ex_V2Trade_new :: "Route \<Rightarrow> CurrencyAmount \<Rightarrow> TradeType \<Rightarrow> Error + TradeData" where
  "ex_V2Trade_new rt amount tt =
     (if protocol rt = Protocol_V2 then ex_quote rt amount tt else Inl TypeError)"

definition ex_abiInputs :: "string \<Rightarrow> nat option" where
  "ex_abiInputs name =
     (if name = ''swapExactETHForTokens'' \<or> name = ''swapETHForExactTokens'' then Some 4
      else if name = ''swapExactTokensForTokens'' \<or> name = ''swapExactTokensForETH'' \<or>
              name = ''swapTokensForExactTokens'' \<or> name = ''swapTokensForExactETH'' then Some 5
      else None)"

definition ex_abiError :: "string \<Rightarrow> AbiArg list \<Rightarrow> Error option" where
  "ex_abiError name args =
     (case ex_abiInputs name of
        None \<Rightarrow> Some (LibraryError ''no matching function'')
      | Some n \<Rightarrow>
          if length args \<noteq> n then Some (LibraryError ''types/values length mismatch'')
          else if ValidationArg None \<in> set args then Some (LibraryError ''invalid BigNumber value'')
          else None)"

definition ex_env :: Env where
  "ex_env =
     \<lparr>validateAndParseAddress = (\<lambda>a. if a = [] then Inl (LibraryError ''ADDRESS'') else Inr a),
      WETH9 = (\<lambda>c. \<lparr>token_chainId = c, token_address = ''0xWETH''\<rparr>),
      V2Trade_new = ex_V2Trade_new,
      abiError = ex_abiError\<rparr>"

definition ex_options :: SwapOptions where
  "ex_options =
     \<lparr>slippageTolerance = \<lparr>pct_numerator = 1, pct_denominator = 100\<rparr>,
      recipient = None,
      deadlineOrPreviousBlockhash = Some ''1700000000'',
      inputTokenPermit = None,
      fee = None\<rparr>"

definition ex_route :: "string \<Rightarrow> Route" where
  "ex_route tag = \<lparr>protocol = tag, path = [tokA, tokB], route_chainId = 1\<rparr>"

text \<open>A trade of 100 units of a currency for a quoted 200 of token B, at least 198.\<close>

definition ex_trade :: "string \<Rightarrow> Currency \<Rightarrow> Percent \<Rightarrow> TradeData" where
  "ex_trade tag cin impact =
     \<lparr>route = ex_route tag, tradeType = EXACT_INPUT,
      inputAmount = ex_amount cin 100,
      outputAmount = ex_amount (TokenCurrency tokB) 200,
      maximumAmountIn = (\<lambda>p. ex_amount cin 100),
      minimumAmountOut = (\<lambda>p. ex_amount (TokenCurrency tokB) 198),
      priceImpact = impact\<rparr>"

definition ex_swap :: "string \<Rightarrow> Currency \<Rightarrow> Swap" where
  "ex_swap tag cin =
     \<lparr>swap_route = ex_route tag,
      swap_inputAmount = ex_amount cin 100,
      swap_outputAmount = ex_amount (TokenCurrency tokB) 200\<rparr>"

definition ex_aggregate :: "string \<Rightarrow> Currency \<Rightarrow> Percent \<Rightarrow> AggregateTrade" where
  "ex_aggregate tag cin impact =
     \<lparr>agg_swaps = [ex_swap tag cin], agg_tradeType = EXACT_INPUT, agg_priceImpact = impact\<rparr>"

definition low_impact :: Percent where
  "low_impact = \<lparr>pct_numerator = 1, pct_denominator = 100\<rparr>"

definition high_impact :: Percent where
  "high_impact = \<lparr>pct_numerator = 60, pct_denominator = 100\<rparr>"

text \<open>A position in the pool of tokens A and B that wants 1000 of A and 500 of B.\<close>

definition ex_position :: Position where
  "ex_position =
     \<lparr>pool = \<lparr>token0 = tokA, token1 = tokB\<rparr>,
      tickLower = -60, tickUpper = 60,
      amount0 = ex_amount (TokenCurrency tokA) 1000,
      amount1 = ex_amount (TokenCurrency tokB) 500,
      mintAmounts = \<lparr>mint_amount0 = 1000, mint_amount1 = 500\<rparr>\<rparr>"

definition ex_addOptions :: SwapAndAddOptions where
  "ex_addOptions =
     \<lparr>slippageTolerance = \<lparr>pct_numerator = 1, pct_denominator = 100\<rparr>,
      recipient = None,
      deadlineOrPreviousBlockhash = Some ''1700000000'',
      inputTokenPermit = None,
      fee = None,
      outputTokenPermit = None\<rparr>"

section \<open>Lemmas about the loops\<close>

lemma collect_Inr: "collect rs = Inr xs \<longleftrightarrow> rs = map Inr xs"
proof (induction rs arbitrary: xs)
  case Nil
  show ?case by auto
next
  case (Cons r rs)
  show ?case
  proof (cases r)
    case (Inl e)
    then show ?thesis by auto
  next
    case r: (Inr x)
    show ?thesis
    proof (cases "collect rs")
      case (Inl e)
      with Cons.IH have "\<And>ys. rs \<noteq> map Inr ys" by auto
      with r Inl show ?thesis by auto
    next
      case (Inr ys)
      with Cons.IH[of ys] have "rs = map Inr ys" by simp
      with r Inr show ?thesis by auto
    qed
  qed
qed

lemma encodeTrades_collect:
  "encodeTrades env options c a trades acc =
     (case collect (map (\<lambda>d. encodeV2Swap env d options c a) (v2Legs trades)) of
        Inl e \<Rightarrow> Inl e
      | Inr cs \<Rightarrow> Inr (acc @ cs))"
proof (induction trades arbitrary: acc)
  case Nil
  show ?case by simp
next
  case (Cons t trades)
  show ?case
  proof (cases t)
    case (V2Trade d)
    show ?thesis
    proof (cases "encodeV2Swap env d options c a")
      case (Inl e)
      with V2Trade show ?thesis by simp
    next
      case (Inr x)
      with V2Trade show ?thesis by (simp add: Cons.IH split: sum.splits)
    qed
  next
    case (V3Trade d sw)
    then show ?thesis by (simp add: Cons.IH)
  next
    case (MixedRouteTrade d sw)
    then show ?thesis by (simp add: Cons.IH)
  qed
qed

lemma unbundledLeg_eq:
  "unbundledLeg env tt s =
     map_sum id V2Trade (V2Trade_new env (swap_route s)
       (if tt = EXACT_INPUT then swap_inputAmount s else swap_outputAmount s) tt)"
  by (simp add: unbundledLeg_def)

lemma unbundleSwaps_collect:
  "unbundleSwaps env tt swaps acc =
     (case collect (map (unbundledLeg env tt) swaps) of
        Inl e \<Rightarrow> Inl e
      | Inr legs \<Rightarrow> Inr (acc @ legs))"
proof (induction swaps arbitrary: acc)
  case Nil
  show ?case by simp
next
  case (Cons s swaps)
  show ?case
  proof (cases "V2Trade_new env (swap_route s)
                  (if tt = EXACT_INPUT then swap_inputAmount s else swap_outputAmount s) tt")
    case (Inl e)
    then show ?thesis by (simp add: unbundledLeg_eq)
  next
    case (Inr d)
    then show ?thesis by (simp add: unbundledLeg_eq Cons.IH split: sum.splits)
  qed
qed

lemma fold_amount_add_quotient:
  "amount_quotient (fold (\<lambda>trade sum. amount_add sum (f trade)) trades z) =
     amount_quotient z + sum_list (map (\<lambda>trade. amount_quotient (f trade)) trades)"
  by (induction trades arbitrary: z) (simp_all add: amount_add_def)

lemma fold_amount_add_currency:
  "currency (fold (\<lambda>trade sum. amount_add sum (f trade)) trades z) = currency z"
  by (induction trades arbitrary: z) (simp_all add: amount_add_def)

lemma fold_count:
  "fold (\<lambda>trade n. n + g trade) trades (k::nat) = k + sum_list (map g trades)"
  by (induction trades arbitrary: k) simp_all

lemma numberOfTrades_sum: "numberOfTrades trades = sum_list (map legSegments trades)"
proof -
  have "(\<lambda>trade. case trade of V2Trade d \<Rightarrow> 1 | V3Trade d sw \<Rightarrow> length sw
                   | MixedRouteTrade d sw \<Rightarrow> length sw) = legSegments"
    by (rule ext) (simp split: SingleTrade.splits)
  then show ?thesis
    by (simp add: numberOfTrades_def fold_count)
qed

lemma encodeSwaps_Inr:
  assumes "encodeSwaps env trades0 options isSwapAndAdd = Inr r"
  obtains s others permitCalls where
    "normalizeTrades env trades0 = Inr (s # others)"
    "list_all (\<lambda>trade. currency (inputAmount (tradeData trade)) = currency (inputAmount (tradeData s))) (s # others)"
    "list_all (\<lambda>trade. currency (outputAmount (tradeData trade)) = currency (outputAmount (tradeData s))) (s # others)"
    "list_all (\<lambda>trade. tradeType (tradeData trade) = tradeType (tradeData s)) (s # others)"
    "encodeInputPermit (tradeData s) options = Inr permitCalls"
    "encodeTrades env options (routerMustCustody r)
       (tradeType (tradeData s) = EXACT_INPUT \<and> numberOfTrades (s # others) > 2)
       (s # others) permitCalls = Inr (calldatas r)"
    "sampleTrade r = s"
    "routerMustCustody r =
       (isNative (currency (outputAmount (tradeData s))) \<or> fee options \<noteq> None \<or> isSwapAndAdd \<or>
        (tradeType (tradeData s) = EXACT_INPUT \<and> numberOfTrades (s # others) > 2))"
    "inputIsNative r = isNative (currency (inputAmount (tradeData s)))"
    "outputIsNative r = isNative (currency (outputAmount (tradeData s)))"
    "totalAmountIn r =
       fold (\<lambda>trade sum. amount_add sum (maximumAmountIn (tradeData trade) (slippageTolerance options)))
         (s # others) (fromRawAmount (currency (inputAmount (tradeData s))) 0)"
    "res_minimumAmountOut r =
       fold (\<lambda>trade sum. amount_add sum (minimumAmountOut (tradeData trade) (slippageTolerance options)))
         (s # others) (fromRawAmount (currency (outputAmount (tradeData s))) 0)"
    "quoteAmountOut r =
       fold (\<lambda>trade sum. amount_add sum (outputAmount (tradeData trade)))
         (s # others) (fromRawAmount (currency (outputAmount (tradeData s))) 0)"
proof -
  let ?inOk = "\<lambda>trades s. list_all (\<lambda>trade. currency (inputAmount (tradeData trade)) =
                                  currency (inputAmount (tradeData s))) trades"
  let ?outOk = "\<lambda>trades s. list_all (\<lambda>trade. currency (outputAmount (tradeData trade)) =
                                   currency (outputAmount (tradeData s))) trades"
  let ?ttOk = "\<lambda>trades s. list_all (\<lambda>trade. tradeType (tradeData trade) = tradeType (tradeData s)) trades"
  from assms obtain trades where n: "normalizeTrades env trades0 = Inr trades"
    by (auto simp: encodeSwaps_def split: sum.splits)
  with assms obtain s others where t: "trades = s # others"
    by (cases trades) (auto simp: encodeSwaps_def Let_def)
  let ?agg = "tradeType (tradeData s) = EXACT_INPUT \<and> numberOfTrades (s # others) > 2"
  let ?custody = "isNative (currency (outputAmount (tradeData s))) \<or> fee options \<noteq> None \<or>
                  isSwapAndAdd \<or> ?agg"
  have c1: "?inOk (s # others) s"
    using assms n t by (rule_tac ccontr) (simp add: encodeSwaps_def Let_def equals_def)
  have c2: "?outOk (s # others) s"
    using assms n t c1 by (rule_tac ccontr) (simp add: encodeSwaps_def Let_def equals_def)
  have c3: "?ttOk (s # others) s"
    using assms n t c1 c2 by (rule_tac ccontr) (simp add: encodeSwaps_def Let_def equals_def)
  obtain permitCalls where p: "encodeInputPermit (tradeData s) options = Inr permitCalls"
    using assms n t c1 c2 c3
    by (cases "encodeInputPermit (tradeData s) options")
       (simp_all add: encodeSwaps_def Let_def equals_def)
  obtain cs where e: "encodeTrades env options ?custody ?agg (s # others) permitCalls = Inr cs"
    using assms n t c1 c2 c3 p
    by (cases "encodeTrades env options ?custody ?agg (s # others) permitCalls")
       (simp_all add: encodeSwaps_def Let_def equals_def)
  have r: "r = \<lparr>calldatas = cs, sampleTrade = s, routerMustCustody = ?custody,
                 inputIsNative = isNative (currency (inputAmount (tradeData s))),
                 outputIsNative = isNative (currency (outputAmount (tradeData s))),
                 totalAmountIn =
                   fold (\<lambda>trade sum. amount_add sum
                           (maximumAmountIn (tradeData trade) (slippageTolerance options)))
                     (s # others) (fromRawAmount (currency (inputAmount (tradeData s))) 0),
                 res_minimumAmountOut =
                   fold (\<lambda>trade sum. amount_add sum
                           (minimumAmountOut (tradeData trade) (slippageTolerance options)))
                     (s # others) (fromRawAmount (currency (outputAmount (tradeData s))) 0),
                 quoteAmountOut =
                   fold (\<lambda>trade sum. amount_add sum (outputAmount (tradeData trade)))
                     (s # others) (fromRawAmount (currency (outputAmount (tradeData s))) 0)\<rparr>"
    using assms n t c1 c2 c3 p e by (simp add: encodeSwaps_def Let_def equals_def)
  show ?thesis
  proof (rule that[of s others permitCalls])
    show "normalizeTrades env trades0 = Inr (s # others)" using n t by simp
    show "?inOk (s # others) s" by (rule c1)
    show "?outOk (s # others) s" by (rule c2)
    show "?ttOk (s # others) s" by (rule c3)
    show "encodeInputPermit (tradeData s) options = Inr permitCalls" by (rule p)
    show "encodeTrades env options (routerMustCustody r) ?agg (s # others) permitCalls =
            Inr (calldatas r)"
      using e by (simp add: r)
  qed (simp_all add: r)
qed

section \<open>Unfolding rules\<close>

lemmas ex_defs = tokA_def tokB_def ex_amount_def ex_quote_def ex_V2Trade_new_def ex_abiInputs_def
  ex_abiError_def ex_env_def ex_options_def
  ex_route_def ex_trade_def ex_swap_def ex_aggregate_def low_impact_def high_impact_def
  ex_position_def ex_addOptions_def

lemmas model_defs = encodeSwaps_def normalizeTrades_def supportedProtocol_def numberOfTrades_def
  encodeInputPermit_def encodeV2Swap_def INTERFACE_encodeFunctionData_def swapRecipient_def
  equals_def fromRawAmount_def
  amount_add_def Protocol_V2_def Protocol_V3_def Protocol_MIXED_def Let_def

lemmas swap_defs = swapCallParameters_def swapCalldatas_def unwrapOrSweep_def refundETH_def
  riskOfPartialFill_def v3TradeWithHighPriceImpact_def percent_greaterThan_def
  REFUND_ETH_PRICE_IMPACT_THRESHOLD_def ZERO_def

lemmas add_defs = swapAndAddCallParameters_def swapAndAddCalldatas_def encodeOutputPermit_def
  pullRemainingOutput_def depositCalls_def swapAndAddValue_def amountOutRemaining_def
  tokenIn_def tokenOut_def positionAmountIn_def positionAmountOut_def zeroForOne_def
  getPositionAmounts_def amount_subtract_def amount_greaterThan_def amount_wrapped_def

lemma depositCalls_not_Nil:
  "depositCalls env options position alo tin tout r \<noteq> []"
  by (simp add: depositCalls_def Let_def)

section \<open>Lemmas about the calls and the normalisation\<close>

lemma legs_are_V2:
  "map (unbundledLeg env tt) swaps = map Inr legs \<Longrightarrow> map V2Trade (v2Legs legs) = legs"
proof (induction swaps arbitrary: legs)
  case Nil
  then show ?case by simp
next
  case (Cons s swaps)
  then obtain l ls where l: "legs = l # ls" "unbundledLeg env tt s = Inr l"
    "map (unbundledLeg env tt) swaps = map Inr ls"
    by (cases legs) auto
  from l(2) obtain d where "l = V2Trade d"
    by (cases "V2Trade_new env (swap_route s)
                 (if tt = EXACT_INPUT then swap_inputAmount s else swap_outputAmount s) tt")
       (auto simp: unbundledLeg_eq)
  with l Cons.IH[OF l(3)] show ?case by simp
qed

lemma normalize_aggregate:
  assumes "normalizeTrades env (NonArray (AggregateObj t)) = Inr legs"
  shows "list_all supportedProtocol (agg_swaps t)"
    and "map (unbundledLeg env (agg_tradeType t)) (agg_swaps t) = map Inr legs"
proof -
  from assms show s: "list_all supportedProtocol (agg_swaps t)"
    by (simp add: normalizeTrades_def split: if_splits)
  with assms have "unbundleSwaps env (agg_tradeType t) (agg_swaps t) [] = Inr legs"
    by (simp add: normalizeTrades_def)
  then have "collect (map (unbundledLeg env (agg_tradeType t)) (agg_swaps t)) = Inr legs"
    by (simp add: unbundleSwaps_collect split: sum.splits)
  then show "map (unbundledLeg env (agg_tradeType t)) (agg_swaps t) = map Inr legs"
    by (simp add: collect_Inr)
qed

lemma encodeInputPermit_Inr:
  "encodeInputPermit sample options = Inr permitCalls \<Longrightarrow>
     permitCalls = (case inputTokenPermit options of
                      None \<Rightarrow> []
                    | Some permit \<Rightarrow> [encodePermit (currency (inputAmount sample)) permit])"
  by (auto simp: encodeInputPermit_def split: option.splits if_splits)

lemma encodeSwaps_calldatas:
  assumes "encodeSwaps env trades options isSwapAndAdd = Inr r"
  obtains legs swapCalls where
    "normalizeTrades env trades = Inr legs"
    "calldatas r =
       (case inputTokenPermit options of
          None \<Rightarrow> []
        | Some permit \<Rightarrow> [encodePermit (currency (inputAmount (tradeData (sampleTrade r)))) permit])
       @ swapCalls"
    "map Inr swapCalls =
       map (\<lambda>d. encodeV2Swap env d options (routerMustCustody r)
                  (tradeType (tradeData (sampleTrade r)) = EXACT_INPUT \<and> legCount legs > 2))
           (v2Legs legs)"
proof -
  from assms obtain s others permitCalls where
    n: "normalizeTrades env trades = Inr (s # others)" and
    p: "encodeInputPermit (tradeData s) options = Inr permitCalls" and
    e: "encodeTrades env options (routerMustCustody r)
          (tradeType (tradeData s) = EXACT_INPUT \<and> numberOfTrades (s # others) > 2)
          (s # others) permitCalls = Inr (calldatas r)" and
    st: "sampleTrade r = s"
    by (rule encodeSwaps_Inr)
  let ?enc = "\<lambda>d. encodeV2Swap env d options (routerMustCustody r)
                    (tradeType (tradeData s) = EXACT_INPUT \<and> legCount (s # others) > 2)"
  have k: "numberOfTrades (s # others) = legCount (s # others)"
    by (simp only: numberOfTrades_sum legCount_def)
  from e obtain cs where
    c: "collect (map ?enc (v2Legs (s # others))) = Inr cs" and a: "calldatas r = permitCalls @ cs"
    unfolding k
    by (cases "collect (map ?enc (v2Legs (s # others)))")
       (simp_all add: encodeTrades_collect[where acc = permitCalls])
  from c have m: "map Inr cs = map ?enc (v2Legs (s # others))"
    by (simp add: collect_Inr)
  show ?thesis
    by (rule that[of "s # others" cs])
       (simp_all add: n a st m encodeInputPermit_Inr[OF p] split: option.splits)
qed

lemma encodeV2Swap_not_refund:
  "encodeV2Swap env d options c a = Inr x \<Longrightarrow> x \<noteq> encodeRefundETH"
  by (auto simp: encodeV2Swap_def INTERFACE_encodeFunctionData_def Let_def
           split: sum.splits if_splits option.splits)

lemma calldatas_no_refund:
  assumes "encodeSwaps env trades options isSwapAndAdd = Inr r"
  shows "encodeRefundETH \<notin> set (calldatas r)"
proof -
  from assms obtain legs swapCalls where
    c: "calldatas r =
       (case inputTokenPermit options of
          None \<Rightarrow> []
        | Some permit \<Rightarrow> [encodePermit (currency (inputAmount (tradeData (sampleTrade r)))) permit])
       @ swapCalls" and
    m: "map Inr swapCalls =
       map (\<lambda>d. encodeV2Swap env d options (routerMustCustody r)
                  (tradeType (tradeData (sampleTrade r)) = EXACT_INPUT \<and> legCount legs > 2))
           (v2Legs legs)"
    by (rule encodeSwaps_calldatas)
  have "x \<noteq> encodeRefundETH" if "x \<in> set swapCalls" for x
  proof -
    from that have "Inr x \<in> set (map Inr swapCalls :: (Error + Calldata) list)" by simp
    then obtain d where
      "encodeV2Swap env d options (routerMustCustody r)
         (tradeType (tradeData (sampleTrade r)) = EXACT_INPUT \<and> legCount legs > 2) = Inr x"
      unfolding m by auto
    then show ?thesis by (rule encodeV2Swap_not_refund)
  qed
  then have "encodeRefundETH \<notin> set swapCalls" by blast
  then show ?thesis
    by (simp add: c split: option.splits)
qed

lemma unwrapOrSweep_no_refund: "encodeRefundETH \<notin> set (unwrapOrSweep env options r)"
  by (simp add: unwrapOrSweep_def)

lemma exceedsHalf_iff:
  "percent_greaterThan p REFUND_ETH_PRICE_IMPACT_THRESHOLD \<longleftrightarrow> exceedsHalf p"
  by (simp add: percent_greaterThan_def REFUND_ETH_PRICE_IMPACT_THRESHOLD_def exceedsHalf_def)

lemma riskOfPartialFill_iff:
  "riskOfPartialFill trades \<longleftrightarrow>
     (case trades of
        Array ts \<Rightarrow> \<exists>t\<in>set ts. (\<forall>d. t \<noteq> V2Trade d) \<and> exceedsHalf (priceImpact (tradeData t))
      | NonArray (SingleObj t) \<Rightarrow> (\<forall>d. t \<noteq> V2Trade d) \<and> exceedsHalf (priceImpact (tradeData t))
      | NonArray (AggregateObj a) \<Rightarrow> exceedsHalf (agg_priceImpact a))"
proof -
  have v: "instanceofV2Trade (SingleObj t) \<longleftrightarrow> (\<exists>d. t = V2Trade d)" for t
    by (cases t) simp_all
  show ?thesis
    by (auto simp: riskOfPartialFill_def v3TradeWithHighPriceImpact_def exceedsHalf_iff v
                   list_ex_iff
             split: AnyTradeType.splits TradeObject.splits)
qed

lemma supportedProtocol_iff:
  "list_all supportedProtocol swaps \<longleftrightarrow>
     (\<forall>swap\<in>set swaps. protocol (swap_route swap) \<in> {''V2'', ''V3'', ''MIXED''})"
  by (auto simp: list_all_iff supportedProtocol_def Protocol_V2_def Protocol_V3_def Protocol_MIXED_def)

lemma legOfSwap_V2:
  "protocol (swap_route swap) = Protocol_V2 \<Longrightarrow> legOfSwap env u tt swap = unbundledLeg env tt swap"
  by (cases tt) (simp_all add: legOfSwap_def unbundledLeg_def appropriateAmount_def)

lemma unbundleSwaps_preFlattened:
  assumes "\<forall>swap\<in>set (agg_swaps a). protocol (swap_route swap) = Protocol_V2"
  shows "unbundleSwaps env (agg_tradeType a) (agg_swaps a) [] = preFlattenedLegs env u a"
proof -
  from assms have m: "map (legOfSwap env u (agg_tradeType a)) (agg_swaps a) =
                      map (unbundledLeg env (agg_tradeType a)) (agg_swaps a)"
    by (simp add: legOfSwap_V2)
  show ?thesis
    unfolding preFlattenedLegs_def m
    by (simp add: unbundleSwaps_collect split: sum.splits)
qed

lemma V2_tags_supported:
  "\<forall>swap\<in>set swaps. protocol (swap_route swap) = Protocol_V2 \<Longrightarrow> list_all supportedProtocol swaps"
  by (simp add: list_all_iff supportedProtocol_def)

lemma encodeSwaps_cong:
  "normalizeTrades env trades = normalizeTrades env trades' \<Longrightarrow>
     encodeSwaps env trades options f = encodeSwaps env trades' options f"
  by (simp add: encodeSwaps_def)

section \<open>The claims\<close>

text \<open>
  C1. For every successful compile through either public entry point
  (\<^verbatim>\<open>swapCallParameters\<close> or \<^verbatim>\<open>swapAndAddCallParameters\<close>), the returned
  \<^verbatim>\<open>calldata\<close> is exactly the first entry of the assembled list of calls: nothing of
  the remaining entries is concatenated or batched into it. The list of the swap-only
  flow can be empty, and \<^verbatim>\<open>calldatas[0]\<close> is then \<^verbatim>\<open>undefined\<close>; the list of the
  swap-and-add flow never is.
\<close>

theorem calldata_is_first_entry:
  "(swapCallParameters env trades options = Inr mp \<longrightarrow>
      (\<exists>cs. swapCalldatas env trades options = Inr cs \<and>
            mp_calldata mp = (case cs of [] \<Rightarrow> None | c # rest \<Rightarrow> Some c))) \<and>
   (swapAndAddCallParameters env trades addOptions position alo tin tout = Inr mp' \<longrightarrow>
      (\<exists>c rest. swapAndAddCalldatas env trades addOptions position alo tin tout = Inr (c # rest) \<and>
               mp_calldata mp' = Some c))"
proof (intro conjI impI)
  assume a: "swapCallParameters env trades options = Inr mp"
  then obtain r where r: "encodeSwaps env trades options False = Inr r"
    by (cases "encodeSwaps env trades options False") (simp_all add: swapCallParameters_def)
  let ?cs = "calldatas r @ unwrapOrSweep env options r @ refundETH trades r"
  have "swapCalldatas env trades options = Inr ?cs"
    by (simp add: swapCalldatas_def r)
  moreover have "mp_calldata mp = (case ?cs of [] \<Rightarrow> None | c # rest \<Rightarrow> Some c)"
    using a r by (cases ?cs) (auto simp: swapCallParameters_def)
  ultimately show "\<exists>cs. swapCalldatas env trades options = Inr cs \<and>
            mp_calldata mp = (case cs of [] \<Rightarrow> None | c # rest \<Rightarrow> Some c)"
    by blast
next
  assume a: "swapAndAddCallParameters env trades addOptions position alo tin tout = Inr mp'"
  then obtain r where r: "encodeSwaps env trades addOptions True = Inr r"
    by (cases "encodeSwaps env trades addOptions True") (simp_all add: swapAndAddCallParameters_def)
  with a obtain pc where pc: "encodeOutputPermit r addOptions = Inr pc"
    by (cases "encodeOutputPermit r addOptions") (simp_all add: swapAndAddCallParameters_def)
  let ?cs = "calldatas r @ pc @ pullRemainingOutput env position r @
             depositCalls env addOptions position alo tin tout r"
  have ne: "?cs \<noteq> []" by (simp add: depositCalls_not_Nil)
  then obtain c rest where cs: "?cs = c # rest" by (cases ?cs) auto
  have "swapAndAddCalldatas env trades addOptions position alo tin tout = Inr (c # rest)"
    using cs by (simp add: swapAndAddCalldatas_def r pc)
  moreover have "mp_calldata mp' = Some c"
    using a r pc cs by (auto simp: swapAndAddCallParameters_def)
  ultimately show "\<exists>c rest. swapAndAddCalldatas env trades addOptions position alo tin tout = Inr (c # rest) \<and>
               mp_calldata mp' = Some c"
    by blast
qed

theorem calldata_is_first_entry_witness:
  "swapCallParameters ex_env (Array [V2Trade (ex_trade Protocol_V2 (TokenCurrency tokA) low_impact)]) ex_options =
     Inr \<lparr>mp_calldata = Some (encodeFunctionData ''swapExactTokensForTokens''
                                [HexArg (toHex 100), HexArg (toHex 198), PathArg [''0xA'', ''0xB''],
                                 RecipientArg MSG_SENDER, ValidationArg (Some ''1700000000'')]),
           mp_value = toHex 0\<rparr> \<and>
   (\<exists>cs. swapCalldatas ex_env (Array [V2Trade (ex_trade Protocol_V2 (TokenCurrency tokA) low_impact)])
            ex_options = Inr cs \<and>
         Some (encodeFunctionData ''swapExactTokensForTokens''
                 [HexArg (toHex 100), HexArg (toHex 198), PathArg [''0xA'', ''0xB''],
                  RecipientArg MSG_SENDER, ValidationArg (Some ''1700000000'')]) =
           (case cs of [] \<Rightarrow> None | c # rest \<Rightarrow> Some c)) \<and>
   swapAndAddCallParameters ex_env (Array [V2Trade (ex_trade Protocol_V2 (TokenCurrency tokA) low_impact)])
       ex_addOptions ex_position (CondensedAddLiquidityOptions ''opts'') NOT_REQUIRED (OtherApproval 1) =
     Inr \<lparr>mp_calldata = Some (encodeFunctionData ''swapExactTokensForTokens''
                                [HexArg (toHex 100), HexArg (toHex 198), PathArg [''0xA'', ''0xB''],
                                 RecipientArg ADDRESS_THIS, ValidationArg (Some ''1700000000'')]),
           mp_value = toString 0\<rparr> \<and>
   (\<exists>rest. swapAndAddCalldatas ex_env (Array [V2Trade (ex_trade Protocol_V2 (TokenCurrency tokA) low_impact)])
       ex_addOptions ex_position (CondensedAddLiquidityOptions ''opts'') NOT_REQUIRED (OtherApproval 1) =
     Inr (encodeFunctionData ''swapExactTokensForTokens''
            [HexArg (toHex 100), HexArg (toHex 198), PathArg [''0xA'', ''0xB''],
             RecipientArg ADDRESS_THIS, ValidationArg (Some ''1700000000'')] # rest))"
proof -
  let ?T = "Array [V2Trade (ex_trade Protocol_V2 (TokenCurrency tokA) low_impact)]"
  let ?c1 = "encodeFunctionData ''swapExactTokensForTokens''
               [HexArg (toHex 100), HexArg (toHex 198), PathArg [''0xA'', ''0xB''],
                RecipientArg MSG_SENDER, ValidationArg (Some ''1700000000'')]"
  let ?c2 = "encodeFunctionData ''swapExactTokensForTokens''
               [HexArg (toHex 100), HexArg (toHex 198), PathArg [''0xA'', ''0xB''],
                RecipientArg ADDRESS_THIS, ValidationArg (Some ''1700000000'')]"
  have h1: "swapCallParameters ex_env ?T ex_options = Inr \<lparr>mp_calldata = Some ?c1, mp_value = toHex 0\<rparr>"
    by (simp add: ex_defs model_defs swap_defs)
  have h2: "swapAndAddCallParameters ex_env ?T ex_addOptions ex_position
              (CondensedAddLiquidityOptions ''opts'') NOT_REQUIRED (OtherApproval 1) =
            Inr \<lparr>mp_calldata = Some ?c2, mp_value = toString 0\<rparr>"
    by (simp add: ex_defs model_defs add_defs ZERO_def)
  from calldata_is_first_entry
         [where env = ex_env and trades = ?T and options = ex_options
            and mp = "\<lparr>mp_calldata = Some ?c1, mp_value = toHex 0\<rparr>"
            and addOptions = ex_addOptions and position = ex_position
            and alo = "CondensedAddLiquidityOptions ''opts''" and tin = NOT_REQUIRED
            and tout = "OtherApproval 1"
            and mp' = "\<lparr>mp_calldata = Some ?c2, mp_value = toString 0\<rparr>"]
       h1 h2
  show ?thesis by auto
qed

text \<open>
  C2, as amended. For every accepted input, the assembled call list of \<^verbatim>\<open>encodeSwaps\<close>
  is the optional input-permit call followed by exactly one encoded swap call for each
  normalized leg that is an instance of \<^verbatim>\<open>V2Trade\<close>, in the order of the legs. Every
  leg of an aggregate trade is such an instance, whatever its protocol tag; a V3 or
  mixed-route trade passed singly or in a list gets no call.
\<close>

theorem one_call_per_V2_leg:
  assumes "encodeSwaps env trades options isSwapAndAdd = Inr r"
  shows "\<exists>legs swapCalls.
           normalizeTrades env trades = Inr legs \<and>
           calldatas r =
             (case inputTokenPermit options of
                None \<Rightarrow> []
              | Some permit \<Rightarrow> [encodePermit (currency (inputAmount (tradeData (sampleTrade r)))) permit])
             @ swapCalls \<and>
           map Inr swapCalls =
             map (\<lambda>d. encodeV2Swap env d options (routerMustCustody r)
                        (tradeType (tradeData (sampleTrade r)) = EXACT_INPUT \<and> legCount legs > 2))
                 (v2Legs legs) \<and>
           (\<forall>t. trades = NonArray (AggregateObj t) \<longrightarrow>
                  map V2Trade (v2Legs legs) = legs \<and> length legs = length (agg_swaps t))"
proof -
  from assms obtain legs swapCalls where
    n: "normalizeTrades env trades = Inr legs" and
    c: "calldatas r =
       (case inputTokenPermit options of
          None \<Rightarrow> []
        | Some permit \<Rightarrow> [encodePermit (currency (inputAmount (tradeData (sampleTrade r)))) permit])
       @ swapCalls" and
    m: "map Inr swapCalls =
       map (\<lambda>d. encodeV2Swap env d options (routerMustCustody r)
                  (tradeType (tradeData (sampleTrade r)) = EXACT_INPUT \<and> legCount legs > 2))
           (v2Legs legs)"
    by (rule encodeSwaps_calldatas)
  have "map V2Trade (v2Legs legs) = legs \<and> length legs = length (agg_swaps t)"
    if "trades = NonArray (AggregateObj t)" for t
  proof -
    from n that have "map (unbundledLeg env (agg_tradeType t)) (agg_swaps t) = map Inr legs"
      by (simp add: normalize_aggregate(2))
    then show ?thesis
      using legs_are_V2 by (metis length_map)
  qed
  with n c m show ?thesis by blast
qed

theorem one_call_per_V2_leg_witness:
  "\<exists>r. encodeSwaps ex_env
          (Array [V2Trade (ex_trade Protocol_V2 (TokenCurrency tokA) low_impact),
                  V3Trade (ex_trade Protocol_V3 (TokenCurrency tokA) low_impact)
                    [ex_swap Protocol_V3 (TokenCurrency tokA)],
                  V2Trade (ex_trade Protocol_V2 (TokenCurrency tokA) high_impact)])
          (ex_options\<lparr>inputTokenPermit := Some (PermitOptions ''signature'')\<rparr>) False = Inr r \<and>
       (\<exists>c1 c2. calldatas r =
                  [encodePermit (TokenCurrency tokA) (PermitOptions ''signature''), c1, c2] \<and>
                encodeV2Swap ex_env (ex_trade Protocol_V2 (TokenCurrency tokA) low_impact)
                  (ex_options\<lparr>inputTokenPermit := Some (PermitOptions ''signature'')\<rparr>) True True = Inr c1 \<and>
                encodeV2Swap ex_env (ex_trade Protocol_V2 (TokenCurrency tokA) high_impact)
                  (ex_options\<lparr>inputTokenPermit := Some (PermitOptions ''signature'')\<rparr>) True True = Inr c2)"
proof -
  let ?T = "Array [V2Trade (ex_trade Protocol_V2 (TokenCurrency tokA) low_impact),
                  V3Trade (ex_trade Protocol_V3 (TokenCurrency tokA) low_impact)
                    [ex_swap Protocol_V3 (TokenCurrency tokA)],
                  V2Trade (ex_trade Protocol_V2 (TokenCurrency tokA) high_impact)]"
  let ?o = "ex_options\<lparr>inputTokenPermit := Some (PermitOptions ''signature'')\<rparr>"
  obtain r where r: "encodeSwaps ex_env ?T ?o False = Inr r"
    by (simp add: ex_defs model_defs)
  have s: "sampleTrade r = V2Trade (ex_trade Protocol_V2 (TokenCurrency tokA) low_impact)"
    and c: "routerMustCustody r"
    using r by (auto simp: ex_defs model_defs)
  from one_call_per_V2_leg[OF r] s c show ?thesis
    apply (intro exI[of _ r] conjI r)
    apply (auto simp: normalizeTrades_def legCount_def ex_options_def ex_trade_def ex_amount_def
                      map_eq_Cons_conv)
    done
qed

text \<open>
  A single V3 trade is accepted: it is the one normalized leg, and no call is encoded
  for it.
\<close>

theorem one_call_per_leg_counterexample:
  "normalizeTrades ex_env
     (NonArray (SingleObj (V3Trade (ex_trade Protocol_V3 (TokenCurrency tokA) low_impact)
                             [ex_swap Protocol_V3 (TokenCurrency tokA)]))) =
     Inr [V3Trade (ex_trade Protocol_V3 (TokenCurrency tokA) low_impact)
            [ex_swap Protocol_V3 (TokenCurrency tokA)]] \<and>
   map_sum id calldatas
     (encodeSwaps ex_env
        (NonArray (SingleObj (V3Trade (ex_trade Protocol_V3 (TokenCurrency tokA) low_impact)
                                [ex_swap Protocol_V3 (TokenCurrency tokA)])))
        ex_options False) = Inr []"
  by (simp add: ex_defs model_defs)

text \<open>
  C3. For every accepted input, \<^verbatim>\<open>routerMustCustody\<close> holds exactly when the output
  currency is native, or a fee option is present, or the compile is a swap-and-add, or
  the aggregated slippage check is on; and that check, which is the flag every leg is
  encoded with, is on exactly when the trade type is \<^verbatim>\<open>EXACT_INPUT\<close> and the leg count
  (the segments of each V3 or mixed-route trade, one for each V2 trade) exceeds 2.
\<close>

theorem routerMustCustody_iff:
  assumes "encodeSwaps env trades options isSwapAndAdd = Inr r"
  shows "\<exists>legs permitCalls.
           normalizeTrades env trades = Inr legs \<and> legs \<noteq> [] \<and> sampleTrade r = hd legs \<and>
           (routerMustCustody r \<longleftrightarrow>
              isNative (currency (outputAmount (tradeData (hd legs)))) \<or> fee options \<noteq> None \<or>
              isSwapAndAdd \<or>
              (tradeType (tradeData (hd legs)) = EXACT_INPUT \<and> legCount legs > 2)) \<and>
           encodeTrades env options (routerMustCustody r)
             (tradeType (tradeData (hd legs)) = EXACT_INPUT \<and> legCount legs > 2)
             legs permitCalls = Inr (calldatas r)"
proof -
  from assms obtain s others permitCalls where
    n: "normalizeTrades env trades = Inr (s # others)" and
    e: "encodeTrades env options (routerMustCustody r)
          (tradeType (tradeData s) = EXACT_INPUT \<and> numberOfTrades (s # others) > 2)
          (s # others) permitCalls = Inr (calldatas r)" and
    st: "sampleTrade r = s" and
    c: "routerMustCustody r =
          (isNative (currency (outputAmount (tradeData s))) \<or> fee options \<noteq> None \<or> isSwapAndAdd \<or>
           (tradeType (tradeData s) = EXACT_INPUT \<and> numberOfTrades (s # others) > 2))"
    by (rule encodeSwaps_Inr)
  have k: "numberOfTrades (s # others) = legCount (s # others)"
    by (simp only: numberOfTrades_sum legCount_def)
  show ?thesis
    apply (rule exI[of _ "s # others"])
    apply (rule exI[of _ permitCalls])
    using n e st c unfolding k by simp
qed

theorem routerMustCustody_iff_witness:
  "\<exists>r. encodeSwaps ex_env
          (Array [V2Trade (ex_trade Protocol_V2 (TokenCurrency tokA) low_impact),
                  V2Trade (ex_trade Protocol_V2 (TokenCurrency tokA) low_impact),
                  V2Trade (ex_trade Protocol_V2 (TokenCurrency tokA) low_impact)])
          ex_options False = Inr r \<and> routerMustCustody r"
proof -
  let ?t = "V2Trade (ex_trade Protocol_V2 (TokenCurrency tokA) low_impact)"
  obtain r where r: "encodeSwaps ex_env (Array [?t, ?t, ?t]) ex_options False = Inr r"
    by (simp add: ex_defs model_defs)
  from routerMustCustody_iff[OF r] have "routerMustCustody r"
    by (auto simp: normalizeTrades_def legCount_def ex_trade_def)
  with r show ?thesis by blast
qed

text \<open>
  C4. For a V2-style leg whose recipient resolves, each combination of trade type,
  native input and native output selects its function and argument order, and the
  result is what the encoder makes of that function and those arguments, its error when
  it throws: \<^verbatim>\<open>EXACT_INPUT\<close> with native input takes [minOut-or-zero, path, recipient,
  deadline], the other two \<^verbatim>\<open>EXACT_INPUT\<close> variants take [amountIn, minOut-or-zero,
  path, recipient, deadline], every \<^verbatim>\<open>EXACT_OUTPUT\<close> variant takes [amountOut, amountIn,
  path, recipient, deadline]; the minimum-output argument is the number zero exactly
  when the aggregated slippage check is on.
\<close>

theorem encodeV2Swap_variants:
  fixes env :: Env and trade :: TradeData and options :: "'a SwapOptions_scheme"
    and custody agg :: bool and rcp :: Recipient
  defines "amountIn \<equiv> HexArg (toHex (amount_quotient (maximumAmountIn trade (slippageTolerance options))))"
  defines "amountOut \<equiv> HexArg (toHex (amount_quotient (minimumAmountOut trade (slippageTolerance options))))"
  defines "minOutOrZero \<equiv> (if agg then NumArg 0 else amountOut)"
  defines "rest \<equiv> [PathArg (map token_address (path (route trade))), RecipientArg rcp,
                     ValidationArg (deadlineOrPreviousBlockhash options)]"
  defines "inNative \<equiv> isNative (currency (inputAmount trade))"
  defines "outNative \<equiv> isNative (currency (outputAmount trade))"
  assumes rcp: "swapRecipient env options custody = Inr rcp"
  shows "(tradeType trade = EXACT_INPUT \<and> inNative \<longrightarrow>
            encodeV2Swap env trade options custody agg =
              INTERFACE_encodeFunctionData env ''swapExactETHForTokens'' (minOutOrZero # rest)) \<and>
         (tradeType trade = EXACT_INPUT \<and> \<not> inNative \<and> outNative \<longrightarrow>
            encodeV2Swap env trade options custody agg =
              INTERFACE_encodeFunctionData env ''swapExactTokensForETH'' (amountIn # minOutOrZero # rest)) \<and>
         (tradeType trade = EXACT_INPUT \<and> \<not> inNative \<and> \<not> outNative \<longrightarrow>
            encodeV2Swap env trade options custody agg =
              INTERFACE_encodeFunctionData env ''swapExactTokensForTokens'' (amountIn # minOutOrZero # rest)) \<and>
         (tradeType trade = EXACT_OUTPUT \<and> inNative \<longrightarrow>
            encodeV2Swap env trade options custody agg =
              INTERFACE_encodeFunctionData env ''swapETHForExactTokens'' (amountOut # amountIn # rest)) \<and>
         (tradeType trade = EXACT_OUTPUT \<and> \<not> inNative \<and> outNative \<longrightarrow>
            encodeV2Swap env trade options custody agg =
              INTERFACE_encodeFunctionData env ''swapTokensForExactETH'' (amountOut # amountIn # rest)) \<and>
         (tradeType trade = EXACT_OUTPUT \<and> \<not> inNative \<and> \<not> outNative \<longrightarrow>
            encodeV2Swap env trade options custody agg =
              INTERFACE_encodeFunctionData env ''swapTokensForExactTokens'' (amountOut # amountIn # rest)) \<and>
         (minOutOrZero = NumArg 0 \<longleftrightarrow> agg) \<and>
         (\<forall>name args c. INTERFACE_encodeFunctionData env name args = Inr c \<longleftrightarrow>
                          abiError env name args = None \<and> c = encodeFunctionData name args)"
proof -
  have e: "INTERFACE_encodeFunctionData env name args = Inr c \<longleftrightarrow>
             abiError env name args = None \<and> c = encodeFunctionData name args" for name args c
    by (auto simp: INTERFACE_encodeFunctionData_def split: option.splits)
  have t: "(tradeType trade = EXACT_INPUT \<and> inNative \<longrightarrow>
            encodeV2Swap env trade options custody agg =
              INTERFACE_encodeFunctionData env ''swapExactETHForTokens'' (minOutOrZero # rest)) \<and>
         (tradeType trade = EXACT_INPUT \<and> \<not> inNative \<and> outNative \<longrightarrow>
            encodeV2Swap env trade options custody agg =
              INTERFACE_encodeFunctionData env ''swapExactTokensForETH'' (amountIn # minOutOrZero # rest)) \<and>
         (tradeType trade = EXACT_INPUT \<and> \<not> inNative \<and> \<not> outNative \<longrightarrow>
            encodeV2Swap env trade options custody agg =
              INTERFACE_encodeFunctionData env ''swapExactTokensForTokens'' (amountIn # minOutOrZero # rest)) \<and>
         (tradeType trade = EXACT_OUTPUT \<and> inNative \<longrightarrow>
            encodeV2Swap env trade options custody agg =
              INTERFACE_encodeFunctionData env ''swapETHForExactTokens'' (amountOut # amountIn # rest)) \<and>
         (tradeType trade = EXACT_OUTPUT \<and> \<not> inNative \<and> outNative \<longrightarrow>
            encodeV2Swap env trade options custody agg =
              INTERFACE_encodeFunctionData env ''swapTokensForExactETH'' (amountOut # amountIn # rest)) \<and>
         (tradeType trade = EXACT_OUTPUT \<and> \<not> inNative \<and> \<not> outNative \<longrightarrow>
            encodeV2Swap env trade options custody agg =
              INTERFACE_encodeFunctionData env ''swapTokensForExactTokens'' (amountOut # amountIn # rest)) \<and>
         (minOutOrZero = NumArg 0 \<longleftrightarrow> agg)"
    using rcp
    unfolding amountIn_def amountOut_def minOutOrZero_def rest_def inNative_def outNative_def
    by (cases "tradeType trade") (simp_all add: encodeV2Swap_def Let_def)
  from t e show ?thesis by blast
qed

theorem encodeV2Swap_variants_witness:
  "encodeV2Swap ex_env (ex_trade Protocol_V2 (TokenCurrency tokA) low_impact) ex_options False False =
     Inr (encodeFunctionData ''swapExactTokensForTokens''
            [HexArg (toHex 100), HexArg (toHex 198), PathArg [''0xA'', ''0xB''],
             RecipientArg MSG_SENDER, ValidationArg (Some ''1700000000'')]) \<and>
   encodeV2Swap ex_env (ex_trade Protocol_V2 (NativeCurrency 1) low_impact) ex_options True True =
     Inr (encodeFunctionData ''swapExactETHForTokens''
            [NumArg 0, PathArg [''0xA'', ''0xB''],
             RecipientArg ADDRESS_THIS, ValidationArg (Some ''1700000000'')]) \<and>
   encodeV2Swap ex_env
     ((ex_trade Protocol_V2 (TokenCurrency tokA) low_impact)\<lparr>tradeType := EXACT_OUTPUT\<rparr>)
     ex_options False False =
     Inr (encodeFunctionData ''swapTokensForExactTokens''
            [HexArg (toHex 198), HexArg (toHex 100), PathArg [''0xA'', ''0xB''],
             RecipientArg MSG_SENDER, ValidationArg (Some ''1700000000'')]) \<and>
   encodeV2Swap ex_env
     ((ex_trade Protocol_V2 (NativeCurrency 1) low_impact)\<lparr>tradeType := EXACT_OUTPUT\<rparr>)
     ex_options False False =
     Inl (LibraryError ''types/values length mismatch'')"
proof -
  have r1: "swapRecipient ex_env ex_options False = Inr MSG_SENDER"
    by (simp add: swapRecipient_def ex_options_def)
  have r2: "swapRecipient ex_env ex_options True = Inr ADDRESS_THIS"
    by (simp add: swapRecipient_def)
  from encodeV2Swap_variants
         [OF r1, where trade = "ex_trade Protocol_V2 (TokenCurrency tokA) low_impact" and agg = False]
       encodeV2Swap_variants
         [OF r2, where trade = "ex_trade Protocol_V2 (NativeCurrency 1) low_impact" and agg = True]
       encodeV2Swap_variants
         [OF r1, where trade = "(ex_trade Protocol_V2 (TokenCurrency tokA) low_impact)
                                  \<lparr>tradeType := EXACT_OUTPUT\<rparr>" and agg = False]
       encodeV2Swap_variants
         [OF r1, where trade = "(ex_trade Protocol_V2 (NativeCurrency 1) low_impact)
                                  \<lparr>tradeType := EXACT_OUTPUT\<rparr>" and agg = False]
  show ?thesis
    by (simp add: ex_defs INTERFACE_encodeFunctionData_def)
qed

text \<open>
  C5, as amended. In the swap-only flow a refund call is in the call list, and is then
  its last entry and occurs once, exactly when the input currency is native and the
  trade type is \<^verbatim>\<open>EXACT_OUTPUT\<close> or a partial fill is at risk. The risk is read off
  the trade objects as the caller passed them: in a list, some V3 or mixed-route
  trade whose price impact exceeds 50%; a single V3 or mixed-route trade whose price
  impact exceeds 50%; an aggregate trade whose own price impact exceeds 50%, whatever
  the protocols of its legs. A V2 trade passed directly never carries the risk.
\<close>

theorem refund_iff:
  assumes "swapCalldatas env trades options = Inr cs"
  shows "\<exists>r. encodeSwaps env trades options False = Inr r \<and>
           (encodeRefundETH \<in> set cs \<longleftrightarrow>
              isNative (currency (inputAmount (tradeData (sampleTrade r)))) \<and>
              (tradeType (tradeData (sampleTrade r)) = EXACT_OUTPUT \<or> riskOfPartialFill trades)) \<and>
           (encodeRefundETH \<in> set cs \<longrightarrow>
              cs \<noteq> [] \<and> last cs = encodeRefundETH \<and> encodeRefundETH \<notin> set (butlast cs)) \<and>
           (riskOfPartialFill trades \<longleftrightarrow>
              (case trades of
                 Array ts \<Rightarrow>
                   \<exists>t\<in>set ts. (\<forall>d. t \<noteq> V2Trade d) \<and> exceedsHalf (priceImpact (tradeData t))
               | NonArray (SingleObj t) \<Rightarrow>
                   (\<forall>d. t \<noteq> V2Trade d) \<and> exceedsHalf (priceImpact (tradeData t))
               | NonArray (AggregateObj a) \<Rightarrow> exceedsHalf (agg_priceImpact a)))"
proof -
  from assms obtain r where r: "encodeSwaps env trades options False = Inr r"
    by (cases "encodeSwaps env trades options False") (simp_all add: swapCalldatas_def)
  from r obtain s others where
    st: "sampleTrade r = s" and
    i: "inputIsNative r = isNative (currency (inputAmount (tradeData s)))"
    by (rule encodeSwaps_Inr)
  let ?pre = "calldatas r @ unwrapOrSweep env options r"
  have cs: "cs = ?pre @ refundETH trades r"
    using assms r by (simp add: swapCalldatas_def)
  have pre: "encodeRefundETH \<notin> set ?pre"
    using calldatas_no_refund[OF r] unwrapOrSweep_no_refund by simp
  let ?cond = "isNative (currency (inputAmount (tradeData (sampleTrade r)))) \<and>
               (tradeType (tradeData (sampleTrade r)) = EXACT_OUTPUT \<or> riskOfPartialFill trades)"
  have rf: "refundETH trades r = (if ?cond then [encodeRefundETH] else [])"
    by (simp add: refundETH_def i st)
  have m: "encodeRefundETH \<in> set cs \<longleftrightarrow> ?cond"
    using pre by (simp add: cs rf)
  have l: "cs \<noteq> [] \<and> last cs = encodeRefundETH \<and> encodeRefundETH \<notin> set (butlast cs)"
    if "encodeRefundETH \<in> set cs"
  proof -
    from that m have "cs = ?pre @ [encodeRefundETH]" by (simp add: cs rf)
    with pre show ?thesis by (simp add: butlast_append)
  qed
  from r m l riskOfPartialFill_iff[of trades] show ?thesis by blast
qed

theorem refund_iff_witness:
  "swapCalldatas ex_env
     (Array [V3Trade (ex_trade Protocol_V3 (NativeCurrency 1) high_impact)
               [ex_swap Protocol_V3 (NativeCurrency 1)]])
     ex_options = Inr [encodeRefundETH] \<and>
   riskOfPartialFill
     (Array [V3Trade (ex_trade Protocol_V3 (NativeCurrency 1) high_impact)
               [ex_swap Protocol_V3 (NativeCurrency 1)]]) \<and>
   \<not> riskOfPartialFill
       (NonArray (SingleObj (V2Trade (ex_trade Protocol_V2 (NativeCurrency 1) high_impact))))"
proof -
  let ?T = "Array [V3Trade (ex_trade Protocol_V3 (NativeCurrency 1) high_impact)
                     [ex_swap Protocol_V3 (NativeCurrency 1)]]"
  let ?U = "NonArray (SingleObj (V2Trade (ex_trade Protocol_V2 (NativeCurrency 1) high_impact)))"
  have c: "swapCalldatas ex_env ?T ex_options = Inr [encodeRefundETH]"
    by (simp add: ex_defs model_defs swap_defs)
  obtain cs where u: "swapCalldatas ex_env ?U ex_options = Inr cs"
    by (simp add: ex_defs model_defs swap_defs)
  from refund_iff[OF c] have "riskOfPartialFill ?T"
    by (auto simp: ex_defs exceedsHalf_def)
  moreover from refund_iff[OF u] have "\<not> riskOfPartialFill ?U"
    by auto
  ultimately show ?thesis using c by simp
qed

text \<open>
  An aggregate trade with native input, exact input and a single leg on a V2 route,
  which normalizes to a V2 trade instance: its own price impact of 60% puts the refund
  call at the end of the list.
\<close>

theorem refund_counterexample:
  "swapCalldatas ex_env (NonArray (AggregateObj (ex_aggregate Protocol_V2 (NativeCurrency 1) high_impact)))
     ex_options =
     Inr [encodeFunctionData ''swapExactETHForTokens''
            [HexArg (toHex 198), PathArg [''0xA'', ''0xB''], RecipientArg MSG_SENDER,
             ValidationArg (Some ''1700000000'')],
          encodeRefundETH] \<and>
   agg_tradeType (ex_aggregate Protocol_V2 (NativeCurrency 1) high_impact) = EXACT_INPUT \<and>
   map (protocol \<circ> swap_route)
       (agg_swaps (ex_aggregate Protocol_V2 (NativeCurrency 1) high_impact)) = [''V2''] \<and>
   map_sum id (map (instanceofV2Trade \<circ> SingleObj))
     (normalizeTrades ex_env
        (NonArray (AggregateObj (ex_aggregate Protocol_V2 (NativeCurrency 1) high_impact)))) =
     Inr [True]"
  by (simp add: ex_defs model_defs swap_defs)

text \<open>
  C6, as amended. Validation fails fast with a named error and no partial result. An
  aggregate trade with a leg whose protocol tag is none of the three supported tags
  fails with \<^verbatim>\<open>UNSUPPORTED_PROTOCOL\<close>; the tags of trades passed singly or in a list are
  not looked at. After flattening, legs that differ in input currency fail with
  \<^verbatim>\<open>TOKEN_IN_DIFF\<close>, otherwise legs that differ in output currency with
  \<^verbatim>\<open>TOKEN_OUT_DIFF\<close>, otherwise legs that differ in trade type with
  \<^verbatim>\<open>TRADE_TYPE_DIFF\<close>. Every accepted input has legs that agree in all three, and,
  when it is an aggregate trade, supported tags only.
\<close>

theorem normalization_validates:
  "(\<not> (\<forall>swap\<in>set (agg_swaps t). protocol (swap_route swap) \<in> {''V2'', ''V3'', ''MIXED''}) \<longrightarrow>
      encodeSwaps env (NonArray (AggregateObj t)) options f = Inl UNSUPPORTED_PROTOCOL) \<and>
   (normalizeTrades env trades = Inr (s # others) \<longrightarrow>
      (\<not> (\<forall>leg\<in>set others. currency (inputAmount (tradeData leg)) = currency (inputAmount (tradeData s))) \<longrightarrow>
         encodeSwaps env trades options f = Inl TOKEN_IN_DIFF) \<and>
      ((\<forall>leg\<in>set others. currency (inputAmount (tradeData leg)) = currency (inputAmount (tradeData s))) \<and>
       \<not> (\<forall>leg\<in>set others. currency (outputAmount (tradeData leg)) = currency (outputAmount (tradeData s))) \<longrightarrow>
         encodeSwaps env trades options f = Inl TOKEN_OUT_DIFF) \<and>
      ((\<forall>leg\<in>set others. currency (inputAmount (tradeData leg)) = currency (inputAmount (tradeData s))) \<and>
       (\<forall>leg\<in>set others. currency (outputAmount (tradeData leg)) = currency (outputAmount (tradeData s))) \<and>
       \<not> (\<forall>leg\<in>set others. tradeType (tradeData leg) = tradeType (tradeData s)) \<longrightarrow>
         encodeSwaps env trades options f = Inl TRADE_TYPE_DIFF)) \<and>
   (encodeSwaps env trades options f = Inr r \<longrightarrow>
      (\<exists>legs. normalizeTrades env trades = Inr legs \<and> legs \<noteq> [] \<and> sampleTrade r = hd legs \<and>
         (\<forall>leg\<in>set legs.
            currency (inputAmount (tradeData leg)) = currency (inputAmount (tradeData (hd legs))) \<and>
            currency (outputAmount (tradeData leg)) = currency (outputAmount (tradeData (hd legs))) \<and>
            tradeType (tradeData leg) = tradeType (tradeData (hd legs)))) \<and>
      (\<forall>a. trades = NonArray (AggregateObj a) \<longrightarrow>
         (\<forall>swap\<in>set (agg_swaps a). protocol (swap_route swap) \<in> {''V2'', ''V3'', ''MIXED''})))"
proof (intro conjI impI)
  assume "\<not> (\<forall>swap\<in>set (agg_swaps t). protocol (swap_route swap) \<in> {''V2'', ''V3'', ''MIXED''})"
  then have "\<not> list_all supportedProtocol (agg_swaps t)"
    using supportedProtocol_iff[of "agg_swaps t"] by blast
  then show "encodeSwaps env (NonArray (AggregateObj t)) options f = Inl UNSUPPORTED_PROTOCOL"
    by (simp add: encodeSwaps_def normalizeTrades_def)
next
  assume n: "normalizeTrades env trades = Inr (s # others)"
    and "\<not> (\<forall>leg\<in>set others. currency (inputAmount (tradeData leg)) = currency (inputAmount (tradeData s)))"
  then show "encodeSwaps env trades options f = Inl TOKEN_IN_DIFF"
    by (simp add: encodeSwaps_def Let_def equals_def list_all_iff)
next
  assume n: "normalizeTrades env trades = Inr (s # others)"
    and "(\<forall>leg\<in>set others. currency (inputAmount (tradeData leg)) = currency (inputAmount (tradeData s))) \<and>
       \<not> (\<forall>leg\<in>set others. currency (outputAmount (tradeData leg)) = currency (outputAmount (tradeData s)))"
  then show "encodeSwaps env trades options f = Inl TOKEN_OUT_DIFF"
    by (simp add: encodeSwaps_def Let_def equals_def list_all_iff)
next
  assume n: "normalizeTrades env trades = Inr (s # others)"
    and "(\<forall>leg\<in>set others. currency (inputAmount (tradeData leg)) = currency (inputAmount (tradeData s))) \<and>
       (\<forall>leg\<in>set others. currency (outputAmount (tradeData leg)) = currency (outputAmount (tradeData s))) \<and>
       \<not> (\<forall>leg\<in>set others. tradeType (tradeData leg) = tradeType (tradeData s))"
  then show "encodeSwaps env trades options f = Inl TRADE_TYPE_DIFF"
    by (simp add: encodeSwaps_def Let_def equals_def list_all_iff)
next
  assume a: "encodeSwaps env trades options f = Inr r"
  then obtain s others where
    n: "normalizeTrades env trades = Inr (s # others)" and
    c1: "list_all (\<lambda>trade. currency (inputAmount (tradeData trade)) = currency (inputAmount (tradeData s))) (s # others)" and
    c2: "list_all (\<lambda>trade. currency (outputAmount (tradeData trade)) = currency (outputAmount (tradeData s))) (s # others)" and
    c3: "list_all (\<lambda>trade. tradeType (tradeData trade) = tradeType (tradeData s)) (s # others)" and
    st: "sampleTrade r = s"
    by (rule encodeSwaps_Inr)
  show "\<exists>legs. normalizeTrades env trades = Inr legs \<and> legs \<noteq> [] \<and> sampleTrade r = hd legs \<and>
         (\<forall>leg\<in>set legs.
            currency (inputAmount (tradeData leg)) = currency (inputAmount (tradeData (hd legs))) \<and>
            currency (outputAmount (tradeData leg)) = currency (outputAmount (tradeData (hd legs))) \<and>
            tradeType (tradeData leg) = tradeType (tradeData (hd legs)))"
    using n c1 c2 c3 st by (intro exI[of _ "s # others"]) (simp add: list_all_iff)
  show "\<forall>a. trades = NonArray (AggregateObj a) \<longrightarrow>
         (\<forall>swap\<in>set (agg_swaps a). protocol (swap_route swap) \<in> {''V2'', ''V3'', ''MIXED''})"
  proof (intro allI impI)
    fix a assume "trades = NonArray (AggregateObj a)"
    with n have "list_all supportedProtocol (agg_swaps a)"
      by (simp add: normalize_aggregate(1))
    then show "\<forall>swap\<in>set (agg_swaps a). protocol (swap_route swap) \<in> {''V2'', ''V3'', ''MIXED''}"
      using supportedProtocol_iff[of "agg_swaps a"] by blast
  qed
qed

theorem normalization_validates_witness:
  "encodeSwaps ex_env (NonArray (AggregateObj (ex_aggregate ''V4'' (TokenCurrency tokA) low_impact)))
     ex_options False = Inl UNSUPPORTED_PROTOCOL \<and>
   encodeSwaps ex_env
     (Array [V2Trade (ex_trade Protocol_V2 (TokenCurrency tokA) low_impact),
             V2Trade (ex_trade Protocol_V2 (NativeCurrency 1) low_impact)])
     ex_options False = Inl TOKEN_IN_DIFF \<and>
   encodeSwaps ex_env
     (Array [V2Trade (ex_trade Protocol_V2 (TokenCurrency tokA) low_impact),
             V2Trade ((ex_trade Protocol_V2 (TokenCurrency tokA) low_impact)
                        \<lparr>outputAmount := ex_amount (NativeCurrency 1) 200\<rparr>)])
     ex_options False = Inl TOKEN_OUT_DIFF \<and>
   encodeSwaps ex_env
     (Array [V2Trade (ex_trade Protocol_V2 (TokenCurrency tokA) low_impact),
             V2Trade ((ex_trade Protocol_V2 (TokenCurrency tokA) low_impact)
                        \<lparr>tradeType := EXACT_OUTPUT\<rparr>)])
     ex_options False = Inl TRADE_TYPE_DIFF \<and>
   (\<exists>r. encodeSwaps ex_env
           (NonArray (AggregateObj (ex_aggregate Protocol_V2 (TokenCurrency tokA) low_impact)))
           ex_options False = Inr r \<and>
        tradeType (tradeData (sampleTrade r)) = EXACT_INPUT)"
proof -
  let ?a = "V2Trade (ex_trade Protocol_V2 (TokenCurrency tokA) low_impact)"
  let ?b1 = "V2Trade (ex_trade Protocol_V2 (NativeCurrency 1) low_impact)"
  let ?b2 = "V2Trade ((ex_trade Protocol_V2 (TokenCurrency tokA) low_impact)
                        \<lparr>outputAmount := ex_amount (NativeCurrency 1) 200\<rparr>)"
  let ?b3 = "V2Trade ((ex_trade Protocol_V2 (TokenCurrency tokA) low_impact)
                        \<lparr>tradeType := EXACT_OUTPUT\<rparr>)"
  let ?agg = "NonArray (AggregateObj (ex_aggregate Protocol_V2 (TokenCurrency tokA) low_impact))"
  have n: "normalizeTrades ex_env (Array [?a, b]) = Inr (?a # [b])" for b
    by (simp add: normalizeTrades_def)
  obtain r where r: "encodeSwaps ex_env ?agg ex_options False = Inr r"
    by (simp add: ex_defs model_defs)
  have 1: "encodeSwaps ex_env (NonArray (AggregateObj (ex_aggregate ''V4'' (TokenCurrency tokA) low_impact)))
             ex_options False = Inl UNSUPPORTED_PROTOCOL"
    using normalization_validates
            [where t = "ex_aggregate ''V4'' (TokenCurrency tokA) low_impact" and env = ex_env
               and options = ex_options and f = False]
    by (simp add: ex_defs)
  have 2: "encodeSwaps ex_env (Array [?a, ?b1]) ex_options False = Inl TOKEN_IN_DIFF"
    using normalization_validates
            [where trades = "Array [?a, ?b1]" and env = ex_env and s = ?a and others = "[?b1]"
               and options = ex_options and f = False]
          n[of ?b1]
    by (simp add: ex_defs)
  have 3: "encodeSwaps ex_env (Array [?a, ?b2]) ex_options False = Inl TOKEN_OUT_DIFF"
    using normalization_validates
            [where trades = "Array [?a, ?b2]" and env = ex_env and s = ?a and others = "[?b2]"
               and options = ex_options and f = False]
          n[of ?b2]
    by (simp add: ex_defs)
  have 4: "encodeSwaps ex_env (Array [?a, ?b3]) ex_options False = Inl TRADE_TYPE_DIFF"
    using normalization_validates
            [where trades = "Array [?a, ?b3]" and env = ex_env and s = ?a and others = "[?b3]"
               and options = ex_options and f = False]
          n[of ?b3]
    by (simp add: ex_defs)
  have 5: "tradeType (tradeData (sampleTrade r)) = EXACT_INPUT"
    using normalization_validates
            [where trades = ?agg and env = ex_env and options = ex_options and f = False and r = r]
          r
    by (auto simp: ex_defs model_defs)
  from 1 2 3 4 5 r show ?thesis by blast
qed

text \<open>
  A list holding one V2 trade whose route carries the tag \<^verbatim>\<open>V4\<close> is accepted and
  encoded.
\<close>

theorem unsupported_tag_counterexample:
  "map_sum id calldatas
     (encodeSwaps ex_env (Array [V2Trade (ex_trade ''V4'' (TokenCurrency tokA) low_impact)])
        ex_options False) =
     Inr [encodeFunctionData ''swapExactTokensForTokens''
            [HexArg (toHex 100), HexArg (toHex 198), PathArg [''0xA'', ''0xB''],
             RecipientArg MSG_SENDER, ValidationArg (Some ''1700000000'')]] \<and>
   protocol (route (tradeData (V2Trade (ex_trade ''V4'' (TokenCurrency tokA) low_impact)))) = ''V4'' \<and>
   ''V4'' \<noteq> Protocol_V2 \<and> ''V4'' \<noteq> Protocol_V3 \<and> ''V4'' \<noteq> Protocol_MIXED"
  by (simp add: ex_defs model_defs)

text \<open>
  C7. For every accepted input, \<^verbatim>\<open>totalAmountIn\<close> is the sum over the normalized legs of
  each leg's maximum input at the slippage tolerance, \<^verbatim>\<open>minimumAmountOut\<close> the sum of
  each leg's minimum output at that tolerance, and \<^verbatim>\<open>quoteAmountOut\<close> the sum of each
  leg's nominal output, in the sample trade's input and output currency.
\<close>

theorem aggregate_figures_are_sums:
  assumes "encodeSwaps env trades options isSwapAndAdd = Inr r"
  shows "\<exists>legs. normalizeTrades env trades = Inr legs \<and>
           amount_quotient (totalAmountIn r) =
             (\<Sum>leg\<leftarrow>legs. amount_quotient (maximumAmountIn (tradeData leg) (slippageTolerance options))) \<and>
           amount_quotient (res_minimumAmountOut r) =
             (\<Sum>leg\<leftarrow>legs. amount_quotient (minimumAmountOut (tradeData leg) (slippageTolerance options))) \<and>
           amount_quotient (quoteAmountOut r) =
             (\<Sum>leg\<leftarrow>legs. amount_quotient (outputAmount (tradeData leg))) \<and>
           currency (totalAmountIn r) = currency (inputAmount (tradeData (sampleTrade r))) \<and>
           currency (res_minimumAmountOut r) = currency (outputAmount (tradeData (sampleTrade r))) \<and>
           currency (quoteAmountOut r) = currency (outputAmount (tradeData (sampleTrade r)))"
proof -
  from assms obtain s others where
    n: "normalizeTrades env trades = Inr (s # others)" and
    st: "sampleTrade r = s" and
    ti: "totalAmountIn r =
       fold (\<lambda>trade sum. amount_add sum (maximumAmountIn (tradeData trade) (slippageTolerance options)))
         (s # others) (fromRawAmount (currency (inputAmount (tradeData s))) 0)" and
    mo: "res_minimumAmountOut r =
       fold (\<lambda>trade sum. amount_add sum (minimumAmountOut (tradeData trade) (slippageTolerance options)))
         (s # others) (fromRawAmount (currency (outputAmount (tradeData s))) 0)" and
    qo: "quoteAmountOut r =
       fold (\<lambda>trade sum. amount_add sum (outputAmount (tradeData trade)))
         (s # others) (fromRawAmount (currency (outputAmount (tradeData s))) 0)"
    by (rule encodeSwaps_Inr)
  have z: "\<And>c. amount_quotient (fromRawAmount c 0) = 0" "\<And>c. currency (fromRawAmount c 0) = c"
    by (simp_all add: fromRawAmount_def)
  show ?thesis
    apply (rule exI[of _ "s # others"])
    apply (simp only: n ti mo qo st fold_amount_add_quotient fold_amount_add_currency z)
    apply simp
    done
qed

theorem aggregate_figures_are_sums_witness:
  "\<exists>r. encodeSwaps ex_env
          (Array [V2Trade (ex_trade Protocol_V2 (TokenCurrency tokA) low_impact),
                  V3Trade (ex_trade Protocol_V3 (TokenCurrency tokA) low_impact)
                    [ex_swap Protocol_V3 (TokenCurrency tokA)]])
          ex_options False = Inr r \<and>
       amount_quotient (totalAmountIn r) = 200 \<and>
       amount_quotient (res_minimumAmountOut r) = 396 \<and>
       amount_quotient (quoteAmountOut r) = 400"
proof -
  let ?T = "Array [V2Trade (ex_trade Protocol_V2 (TokenCurrency tokA) low_impact),
                   V3Trade (ex_trade Protocol_V3 (TokenCurrency tokA) low_impact)
                     [ex_swap Protocol_V3 (TokenCurrency tokA)]]"
  obtain r where r: "encodeSwaps ex_env ?T ex_options False = Inr r"
    by (simp add: ex_defs model_defs)
  from aggregate_figures_are_sums[OF r]
  have "amount_quotient (totalAmountIn r) = 200 \<and>
        amount_quotient (res_minimumAmountOut r) = 396 \<and>
        amount_quotient (quoteAmountOut r) = 400"
    by (auto simp: normalizeTrades_def ex_trade_def ex_amount_def)
  with r show ?thesis by blast
qed

text \<open>
  C8. In the swap-only flow, for every accepted input, the returned value is
  \<^verbatim>\<open>totalAmountIn\<close> (the sum of the legs' maximum inputs) when the input currency is
  native, and zero otherwise.
\<close>

theorem swap_value:
  assumes "swapCallParameters env trades options = Inr mp"
  shows "\<exists>r legs. encodeSwaps env trades options False = Inr r \<and>
           normalizeTrades env trades = Inr legs \<and>
           mp_value mp =
             toHex (if isNative (currency (inputAmount (tradeData (sampleTrade r))))
                    then amount_quotient (totalAmountIn r) else 0) \<and>
           amount_quotient (totalAmountIn r) =
             (\<Sum>leg\<leftarrow>legs. amount_quotient
                            (maximumAmountIn (tradeData leg) (slippageTolerance options)))"
proof -
  from assms obtain r where r: "encodeSwaps env trades options False = Inr r"
    by (cases "encodeSwaps env trades options False") (simp_all add: swapCallParameters_def)
  from r obtain s others where
    n: "normalizeTrades env trades = Inr (s # others)" and
    st: "sampleTrade r = s" and
    i: "inputIsNative r = isNative (currency (inputAmount (tradeData s)))" and
    ti: "totalAmountIn r =
       fold (\<lambda>trade sum. amount_add sum (maximumAmountIn (tradeData trade) (slippageTolerance options)))
         (s # others) (fromRawAmount (currency (inputAmount (tradeData s))) 0)"
    by (rule encodeSwaps_Inr)
  have v: "mp_value mp = toHex (if inputIsNative r then amount_quotient (totalAmountIn r) else ZERO)"
    using assms r by (auto simp: swapCallParameters_def)
  have z: "\<And>c. amount_quotient (fromRawAmount c 0) = 0"
    by (simp add: fromRawAmount_def)
  have "amount_quotient (totalAmountIn r) =
          (\<Sum>leg\<leftarrow>s # others. amount_quotient
                                 (maximumAmountIn (tradeData leg) (slippageTolerance options)))"
    by (simp only: ti fold_amount_add_quotient z)
  with r n v i st show ?thesis
    by (simp add: ZERO_def)
qed

theorem swap_value_witness:
  "\<exists>mp. swapCallParameters ex_env
           (Array [V2Trade (ex_trade Protocol_V2 (NativeCurrency 1) low_impact),
                   V2Trade (ex_trade Protocol_V2 (NativeCurrency 1) low_impact)])
           ex_options = Inr mp \<and> mp_value mp = toHex 200"
proof -
  let ?T = "Array [V2Trade (ex_trade Protocol_V2 (NativeCurrency 1) low_impact),
                   V2Trade (ex_trade Protocol_V2 (NativeCurrency 1) low_impact)]"
  obtain mp where mp: "swapCallParameters ex_env ?T ex_options = Inr mp"
    by (simp add: ex_defs model_defs swap_defs)
  from swap_value[OF mp] have "mp_value mp = toHex 200"
    by (auto simp: ex_defs model_defs)
  with mp show ?thesis by blast
qed

text \<open>
  C9, as amended. For every aggregate trade whose legs all carry the tag \<^verbatim>\<open>V2\<close>,
  normalizing the aggregate is building its pre-flattened list of per-leg V2 trades,
  failures of the constructor included; and when that list exists, normalizing it
  gives the same leg sequence, one leg for each swap of the aggregate, and
  \<^verbatim>\<open>encodeSwaps\<close> returns the same result for both: the same calls, amounts and sample
  trade.
\<close>

theorem normalization_idempotent_V2:
  assumes "\<forall>swap\<in>set (agg_swaps a). protocol (swap_route swap) = Protocol_V2"
  shows "normalizeTrades env (NonArray (AggregateObj a)) = preFlattenedLegs env createUncheckedTrade a \<and>
         (\<forall>legs. preFlattenedLegs env createUncheckedTrade a = Inr legs \<longrightarrow>
            normalizeTrades env (Array legs) = Inr legs \<and>
            encodeSwaps env (NonArray (AggregateObj a)) options f =
              encodeSwaps env (Array legs) options f \<and>
            length legs = length (agg_swaps a))"
proof -
  have n: "normalizeTrades env (NonArray (AggregateObj a)) = preFlattenedLegs env createUncheckedTrade a"
    using assms
    by (simp add: normalizeTrades_def V2_tags_supported unbundleSwaps_preFlattened)
  have "normalizeTrades env (Array legs) = Inr legs \<and>
        encodeSwaps env (NonArray (AggregateObj a)) options f = encodeSwaps env (Array legs) options f \<and>
        length legs = length (agg_swaps a)"
    if p: "preFlattenedLegs env createUncheckedTrade a = Inr legs" for legs
  proof (intro conjI)
    show l: "normalizeTrades env (Array legs) = Inr legs"
      by (simp add: normalizeTrades_def)
    show "encodeSwaps env (NonArray (AggregateObj a)) options f = encodeSwaps env (Array legs) options f"
      by (rule encodeSwaps_cong) (simp add: n p l)
    from n p have "map (unbundledLeg env (agg_tradeType a)) (agg_swaps a) = map Inr legs"
      by (simp add: normalize_aggregate(2))
    then show "length legs = length (agg_swaps a)"
      by (metis length_map)
  qed
  with n show ?thesis by blast
qed

theorem normalization_idempotent_V2_witness:
  "normalizeTrades ex_env
     (NonArray (AggregateObj (ex_aggregate Protocol_V2 (TokenCurrency tokA) low_impact))) =
     Inr [V2Trade (ex_trade Protocol_V2 (TokenCurrency tokA) low_impact)] \<and>
   preFlattenedLegs ex_env ex_quote (ex_aggregate Protocol_V2 (TokenCurrency tokA) low_impact) =
     Inr [V2Trade (ex_trade Protocol_V2 (TokenCurrency tokA) low_impact)] \<and>
   normalizeTrades ex_env (Array [V2Trade (ex_trade Protocol_V2 (TokenCurrency tokA) low_impact)]) =
     Inr [V2Trade (ex_trade Protocol_V2 (TokenCurrency tokA) low_impact)] \<and>
   encodeSwaps ex_env
     (NonArray (AggregateObj (ex_aggregate Protocol_V2 (TokenCurrency tokA) low_impact)))
     ex_options False =
   encodeSwaps ex_env (Array [V2Trade (ex_trade Protocol_V2 (TokenCurrency tokA) low_impact)])
     ex_options False"
proof -
  let ?a = "ex_aggregate Protocol_V2 (TokenCurrency tokA) low_impact"
  let ?legs = "[V2Trade (ex_trade Protocol_V2 (TokenCurrency tokA) low_impact)]"
  have t: "\<forall>swap\<in>set (agg_swaps ?a). protocol (swap_route swap) = Protocol_V2"
    by (simp add: ex_defs)
  have p: "preFlattenedLegs ex_env ex_quote ?a = Inr ?legs"
    by (simp add: preFlattenedLegs_def legOfSwap_def appropriateAmount_def ex_defs Protocol_V2_def)
  from normalization_idempotent_V2
         [OF t, where env = ex_env and createUncheckedTrade = ex_quote and options = ex_options
            and f = False]
       p
  show ?thesis by simp
qed

text \<open>
  An aggregate trade with one leg on a V3 route. Its pre-flattened list is one V3 trade,
  which normalizes to itself; the aggregate does not normalize at all, since its leg is
  handed to the constructor of V2 trades.
\<close>

theorem normalization_counterexample:
  "preFlattenedLegs ex_env ex_quote (ex_aggregate Protocol_V3 (TokenCurrency tokA) low_impact) =
     Inr [V3Trade (ex_trade Protocol_V3 (TokenCurrency tokA) low_impact)
            [ex_swap Protocol_V3 (TokenCurrency tokA)]] \<and>
   normalizeTrades ex_env
     (Array [V3Trade (ex_trade Protocol_V3 (TokenCurrency tokA) low_impact)
               [ex_swap Protocol_V3 (TokenCurrency tokA)]]) =
     Inr [V3Trade (ex_trade Protocol_V3 (TokenCurrency tokA) low_impact)
            [ex_swap Protocol_V3 (TokenCurrency tokA)]] \<and>
   normalizeTrades ex_env
     (NonArray (AggregateObj (ex_aggregate Protocol_V3 (TokenCurrency tokA) low_impact))) =
     Inl TypeError"
  by (simp add: preFlattenedLegs_def legOfSwap_def appropriateAmount_def normalizeTrades_def
                supportedProtocol_def ex_defs Protocol_V2_def Protocol_V3_def Protocol_MIXED_def)

text \<open>
  C10. In the swap-and-add flow, once the swaps are encoded and the output permit is
  accepted, the compile returns whatever the sign of the remaining output amount (the
  position's minted amount on the output side minus the swap's nominal output):
  nothing in \<^verbatim>\<open>swapAndAddCallParameters\<close> itself throws after the permit. The call
  list is the swap calls, the output permit, then one wrap (native output) or pull
  (token output) of the remaining amount exactly when that amount is strictly positive
  and nothing otherwise, then the deposit calls.
\<close>

theorem pull_remaining_output_iff:
  fixes env :: Env and options :: "'a SwapAndAddOptions_scheme" and position :: Position
    and r :: EncodeSwapsResult
  defines "desired \<equiv> (if zeroForOne env position r then mint_amount1 (mintAmounts position)
                        else mint_amount0 (mintAmounts position))"
  defines "remaining \<equiv> desired - amount_quotient (quoteAmountOut r)"
  assumes "encodeSwaps env trades options True = Inr r"
    and "encodeOutputPermit r options = Inr permitCalls"
  shows "(\<exists>mp. swapAndAddCallParameters env trades options position alo tin tout = Inr mp) \<and>
         amount_quotient (amountOutRemaining env position r) = remaining \<and>
         swapAndAddCalldatas env trades options position alo tin tout =
           Inr (calldatas r @ permitCalls @
                (if 0 < remaining
                 then [if outputIsNative r then encodeWrapETH remaining
                       else encodePull (tokenOut env position r) remaining]
                 else []) @
                depositCalls env options position alo tin tout r)"
proof -
  have q: "amount_quotient (amountOutRemaining env position r) = remaining"
    by (simp add: amountOutRemaining_def amount_subtract_def amount_wrapped_def
                  positionAmountOut_def getPositionAmounts_def fromRawAmount_def Let_def
                  remaining_def desired_def)
  have p: "pullRemainingOutput env position r =
             (if 0 < remaining
              then [if outputIsNative r then encodeWrapETH remaining
                    else encodePull (tokenOut env position r) remaining]
              else [])"
    by (simp add: pullRemainingOutput_def amount_greaterThan_def fromRawAmount_def q)
  show ?thesis
    using assms(3,4) by (simp add: swapAndAddCallParameters_def swapAndAddCalldatas_def p q)
qed

theorem pull_remaining_output_iff_witness:
  "(\<exists>rest. swapAndAddCalldatas ex_env
             (Array [V2Trade (ex_trade Protocol_V2 (TokenCurrency tokA) low_impact)])
             ex_addOptions ex_position (CondensedAddLiquidityOptions ''opts'') NOT_REQUIRED NOT_REQUIRED =
           Inr (rest @ [encodePull tokB 300] @
                depositCalls ex_env ex_addOptions ex_position (CondensedAddLiquidityOptions ''opts'')
                  NOT_REQUIRED NOT_REQUIRED
                  (projr (encodeSwaps ex_env
                            (Array [V2Trade (ex_trade Protocol_V2 (TokenCurrency tokA) low_impact)])
                            ex_addOptions True)))) \<and>
   (\<exists>rest. swapAndAddCalldatas ex_env
             (Array [V2Trade (ex_trade Protocol_V2 (TokenCurrency tokA) low_impact)])
             ex_addOptions (ex_position\<lparr>mintAmounts := \<lparr>mint_amount0 = 1000, mint_amount1 = 150\<rparr>\<rparr>)
             (CondensedAddLiquidityOptions ''opts'') NOT_REQUIRED NOT_REQUIRED =
           Inr (rest @ [] @
                depositCalls ex_env ex_addOptions
                  (ex_position\<lparr>mintAmounts := \<lparr>mint_amount0 = 1000, mint_amount1 = 150\<rparr>\<rparr>)
                  (CondensedAddLiquidityOptions ''opts'')
                  NOT_REQUIRED NOT_REQUIRED
                  (projr (encodeSwaps ex_env
                            (Array [V2Trade (ex_trade Protocol_V2 (TokenCurrency tokA) low_impact)])
                            ex_addOptions True))))"
proof -
  let ?T = "Array [V2Trade (ex_trade Protocol_V2 (TokenCurrency tokA) low_impact)]"
  let ?p2 = "ex_position\<lparr>mintAmounts := \<lparr>mint_amount0 = 1000, mint_amount1 = 150\<rparr>\<rparr>"
  obtain r where r: "encodeSwaps ex_env ?T ex_addOptions True = Inr r"
    by (simp add: ex_defs model_defs)
  have pr: "projr (encodeSwaps ex_env ?T ex_addOptions True) = r"
    by (simp add: r)
  have pc: "encodeOutputPermit r ex_addOptions = Inr []"
    by (simp add: encodeOutputPermit_def ex_addOptions_def)
  have v: "quoteAmountOut r = ex_amount (TokenCurrency tokB) 200"
          "totalAmountIn r = ex_amount (TokenCurrency tokA) 100"
          "\<not> outputIsNative r"
    using r by (auto simp: ex_defs model_defs)
  have z1: "zeroForOne ex_env ex_position r" and z2: "zeroForOne ex_env ?p2 r"
    by (simp_all add: zeroForOne_def v ex_defs)
  have t1: "tokenOut ex_env ex_position r = tokB"
    using z1 by (simp add: tokenOut_def v positionAmountOut_def getPositionAmounts_def Let_def
                           fromRawAmount_def ex_position_def)
  from pull_remaining_output_iff
         [OF r pc, where position = ex_position and alo = "CondensedAddLiquidityOptions ''opts''"
            and tin = NOT_REQUIRED and tout = NOT_REQUIRED]
       z1 t1
  have a: "swapAndAddCalldatas ex_env ?T ex_addOptions ex_position
             (CondensedAddLiquidityOptions ''opts'') NOT_REQUIRED NOT_REQUIRED =
           Inr (calldatas r @ [encodePull tokB 300] @
                depositCalls ex_env ex_addOptions ex_position (CondensedAddLiquidityOptions ''opts'')
                  NOT_REQUIRED NOT_REQUIRED r)"
    by (simp add: v ex_position_def ex_amount_def)
  from pull_remaining_output_iff
         [OF r pc, where position = ?p2 and alo = "CondensedAddLiquidityOptions ''opts''"
            and tin = NOT_REQUIRED and tout = NOT_REQUIRED]
       z2
  have b: "swapAndAddCalldatas ex_env ?T ex_addOptions ?p2
             (CondensedAddLiquidityOptions ''opts'') NOT_REQUIRED NOT_REQUIRED =
           Inr (calldatas r @ [] @
                depositCalls ex_env ex_addOptions ?p2 (CondensedAddLiquidityOptions ''opts'')
                  NOT_REQUIRED NOT_REQUIRED r)"
    by (simp add: v ex_amount_def)
  from a b show ?thesis unfolding pr by blast
qed

end
